theory Spec2Isabelle
  imports Main "HOL-Library.Word"
begin

section \<open>Data model of the lazy image\<close>

text \<open>
  The lazily generated image of \<^verbatim>\<open>src/image/SkImage_Lazy.cpp\<close>, embedded as pure functions
  with explicit state. Enumerations whose declarations live in headers outside the file are
  numbered naturals (\<open>SkColorType\<close>, \<open>SkAlphaType\<close>); a colour space is identified by
  its content, so that \<open>SkColorSpace::Equals\<close> is equality of optional values (a null
  pointer is \<open>None\<close>). \<open>size_t\<close> and addresses are 64-bit words, so pointer
  arithmetic wraps as the machine's does; the null pointer is address 0. Unique ids are
  naturals: they are compared, never computed with. The mutexes are not modelled: every
  function here is one call, run to its end on its own.
\<close>

type_synonym SkColorType = nat
type_synonym SkAlphaType = nat
type_synonym SkColorSpace = nat
type_synonym SkYUVColorSpace = nat
type_synonym GrSwizzle = nat
type_synonym size_t = "64 word"
type_synonym pointer = "64 word"
type_synonym bytes = "8 word list"

definition kAlpha_8_SkColorType :: SkColorType where
  "kAlpha_8_SkColorType = 1"

definition kPremul_SkAlphaType :: SkAlphaType where
  "kPremul_SkAlphaType = 2"

definition nullptr :: pointer where
  "nullptr = 0"

text \<open>Truthiness of a pointer or smart pointer: \<open>if (p)\<close>.\<close>

definition non_null :: "'a option \<Rightarrow> bool" where
  "non_null p = (case p of None \<Rightarrow> False | Some _ \<Rightarrow> True)"

record SkISize =
  fWidth :: int
  fHeight :: int

definition SkISize_isEmpty :: "SkISize \<Rightarrow> bool" where
  "SkISize_isEmpty s = (fWidth s \<le> 0 \<or> fHeight s \<le> 0)"

record SkImageInfo =
  fDimensions :: SkISize
  fColorType :: SkColorType
  fAlphaType :: SkAlphaType
  fColorSpace :: "SkColorSpace option"

definition SkImageInfo_isEmpty :: "SkImageInfo \<Rightarrow> bool" where
  "SkImageInfo_isEmpty info = SkISize_isEmpty (fDimensions info)"

definition makeColorType :: "SkImageInfo \<Rightarrow> SkColorType \<Rightarrow> SkImageInfo" where
  "makeColorType info ct = info\<lparr>fColorType := ct\<rparr>"

definition makeColorSpace :: "SkImageInfo \<Rightarrow> SkColorSpace option \<Rightarrow> SkImageInfo" where
  "makeColorSpace info cs = info\<lparr>fColorSpace := cs\<rparr>"

text \<open>The default-constructed \<open>SkImageInfo\<close> member of a validator that returned early.\<close>

definition SkImageInfo_default :: SkImageInfo where
  "SkImageInfo_default =
     \<lparr>fDimensions = \<lparr>fWidth = 0, fHeight = 0\<rparr>, fColorType = 0, fAlphaType = 0,
      fColorSpace = None\<rparr>"

definition MakeA8 :: "int \<Rightarrow> int \<Rightarrow> SkImageInfo" where
  "MakeA8 w h =
     \<lparr>fDimensions = \<lparr>fWidth = w, fHeight = h\<rparr>, fColorType = kAlpha_8_SkColorType,
      fAlphaType = kPremul_SkAlphaType, fColorSpace = None\<rparr>"

definition SkColorSpace_Equals :: "SkColorSpace option \<Rightarrow> SkColorSpace option \<Rightarrow> bool" where
  "SkColorSpace_Equals x y = (x = y)"

datatype CachingHint = kAllow_CachingHint | kDisallow_CachingHint

datatype GrMipmapped = GrMipmapped_kNo | GrMipmapped_kYes

datatype GrImageTexGenPolicy = kDraw | kNew_Uncached_Unbudgeted | kNew_Uncached_Budgeted

datatype SkBudgeted = SkBudgeted_kNo | SkBudgeted_kYes

datatype SkBackingFit = kApprox | kExact

datatype GrRenderable = GrRenderable_kNo | GrRenderable_kYes

datatype GrSurfaceOrigin = kTopLeft_GrSurfaceOrigin | kBottomLeft_GrSurfaceOrigin

text \<open>\<open>GrColorType\<close>: the one enumerator the file names, and the others by number.\<close>

datatype GrColorType = kRGBA_8888 | GrColorType_other nat

datatype GrBackendFormat = GrBackendFormat_invalid | GrBackendFormat_valid nat

definition GrBackendFormat_isValid :: "GrBackendFormat \<Rightarrow> bool" where
  "GrBackendFormat_isValid f = (case f of GrBackendFormat_invalid \<Rightarrow> False | GrBackendFormat_valid _ \<Rightarrow> True)"

text \<open>The local enumeration of \<open>lockTextureProxyView\<close>, in the order of the source.\<close>

datatype LockTexturePath =
    kFailure_LockTexturePath
  | kPreExisting_LockTexturePath
  | kNative_LockTexturePath
  | kCompressed_LockTexturePath
  | kYUV_LockTexturePath
  | kRGBA_LockTexturePath

record GrTextureProxy =
  proxy_id :: nat
  proxy_mipmapped :: GrMipmapped
  proxy_backendFormat :: GrBackendFormat

text \<open>A non-empty view; the empty view \<open>{}\<close> is \<open>None\<close> of the option type.\<close>

record GrSurfaceProxyView =
  view_proxy :: GrTextureProxy
  view_origin :: GrSurfaceOrigin
  view_swizzle :: GrSwizzle

text \<open>A valid \<open>GrUniqueKey\<close>; the default-constructed, invalid key is \<open>None\<close>.\<close>

record GrUniqueKey =
  key_imageID :: nat
  key_bounds :: SkISize

record UniqueKeyInvalidationListener =
  listener_key :: GrUniqueKey
  listener_contextID :: nat

record SkYUVASizeInfo =
  fSizes :: "nat \<Rightarrow> SkISize"
  fWidthBytes :: "nat \<Rightarrow> size_t"
  fOrigin :: nat

text \<open>\<open>SkYUVPlanesCache::Info\<close>.\<close>

record YUVInfo =
  fSizeInfo :: SkYUVASizeInfo
  fYUVAIndices :: "nat \<Rightarrow> int"
  fYUVColorSpace :: SkYUVColorSpace

record SkCachedData =
  cd_data :: pointer
  cd_size :: size_t
  cd_contents :: bytes

datatype pixel_storage =
    CachePixels bytes
  | PrivatePixels bytes
  | InstalledPixels pointer size_t

record SkBitmap =
  bm_info :: SkImageInfo
  bm_pixels :: pixel_storage
  bm_immutable :: bool

record SkBitmapCacheDesc =
  fImageID :: nat
  fSubset :: SkISize

text \<open>
  The generator is an abstract class of the client's; an instance is the record of what its
  virtual methods answer. \<open>getPixels\<close> and \<open>getYUVA8Planes\<close> return the bytes they
  write on success and \<open>None\<close> for \<open>false\<close>; \<open>queryYUVA8\<close> returns what it fills
  in.
\<close>

record SkImageGenerator =
  gen_info :: SkImageInfo
  gen_uniqueID :: nat
  gen_getPixels :: "SkImageInfo \<Rightarrow> bytes option"
  gen_refEncodedData :: "bytes option"
  gen_isValid :: bool
  gen_queryYUVA8 :: "YUVInfo option"
  gen_getYUVA8Planes :: "SkYUVASizeInfo \<Rightarrow> (nat \<Rightarrow> int) \<Rightarrow> (nat \<Rightarrow> pointer) \<Rightarrow> bytes option"
  gen_generateTexture ::
    "SkImageInfo \<Rightarrow> GrMipmapped \<Rightarrow> GrImageTexGenPolicy \<Rightarrow> GrSurfaceProxyView option"

text \<open>
  \<open>SkImage_Lazy\<close>: the shared generator (never null, by the constructor's assertion), the
  info and id fixed at construction, and the three mutable members: the raster-cache flag
  of the base class, the id listeners, and the memoized result of
  \<open>onMakeColorTypeAndColorSpace\<close>. The memoized result is held as the image it is at
  the call; a function that writes a member returns the image rewritten.
\<close>

datatype SkImage_Lazy = SkImage_Lazy
  (fSharedGenerator: SkImageGenerator)
  (fInfo: SkImageInfo)
  (fUniqueID: nat)
  (fAddedToRasterCache: bool)
  (fUniqueIDListeners: "UniqueKeyInvalidationListener list")
  (fOnMakeColorTypeAndSpaceResult: "SkImage_Lazy option")

definition SkImage_colorType :: "SkImage_Lazy \<Rightarrow> SkColorType" where
  "SkImage_colorType img = fColorType (fInfo img)"

definition SkImage_colorSpace :: "SkImage_Lazy \<Rightarrow> SkColorSpace option" where
  "SkImage_colorSpace img = fColorSpace (fInfo img)"

definition SkImage_dimensions :: "SkImage_Lazy \<Rightarrow> SkISize" where
  "SkImage_dimensions img = fDimensions (fInfo img)"

definition notifyAddedToRasterCache :: "SkImage_Lazy \<Rightarrow> SkImage_Lazy" where
  "notifyAddedToRasterCache img =
     (case img of SkImage_Lazy g i u a l r \<Rightarrow> SkImage_Lazy g i u True l r)"

definition addUniqueIDListener ::
    "SkImage_Lazy \<Rightarrow> UniqueKeyInvalidationListener \<Rightarrow> SkImage_Lazy" where
  "addUniqueIDListener img listener =
     (case img of SkImage_Lazy g i u a l r \<Rightarrow> SkImage_Lazy g i u a (l @ [listener]) r)"

definition set_fOnMakeColorTypeAndSpaceResult ::
    "SkImage_Lazy \<Rightarrow> SkImage_Lazy \<Rightarrow> SkImage_Lazy" where
  "set_fOnMakeColorTypeAndSpaceResult img result =
     (case img of SkImage_Lazy g i u a l r \<Rightarrow> SkImage_Lazy g i u a l (Some result))"

text \<open>
  The caches and the histogram: the state outside the image that the file's functions
  read and write.
\<close>

record World =
  bitmapCache :: "SkBitmapCacheDesc \<rightharpoonup> SkBitmap"
  yuvPlanesCache :: "nat \<rightharpoonup> (SkCachedData \<times> YUVInfo)"
  uniquelyKeyedProxies :: "GrUniqueKey \<rightharpoonup> GrTextureProxy"
  histogram :: "LockTexturePath list"

text \<open>
  The recording context and the collaborators the file calls but does not define, as
  parameters: what the caps answer, the context's options and id, whether each allocation
  succeeds, and what the texture makers return.
\<close>

record Env =
  SkColorTypeToGrColorType :: "SkColorType \<Rightarrow> GrColorType"
  caps_getDefaultBackendFormat :: "GrColorType \<Rightarrow> GrRenderable \<Rightarrow> GrBackendFormat"
  caps_getReadSwizzle :: "GrBackendFormat \<Rightarrow> GrColorType \<Rightarrow> GrSwizzle"
  fDisableGpuYUVConversion :: bool
  contextID :: nat
  SkBitmapCache_Alloc :: "SkBitmapCacheDesc \<Rightarrow> SkImageInfo \<Rightarrow> bool"
  tryAllocPixels :: "SkImageInfo \<Rightarrow> bool"
  NewCachedData :: "size_t \<Rightarrow> pointer option"
  copy_to_mipped_surface :: "GrTextureProxy \<Rightarrow> nat option"
  GrBitmapTextureMaker_fit_view ::
    "SkBitmap \<Rightarrow> SkBackingFit \<Rightarrow> GrMipmapped \<Rightarrow> GrSurfaceProxyView option"
  GrBitmapTextureMaker_policy_view ::
    "SkBitmap \<Rightarrow> GrImageTexGenPolicy \<Rightarrow> GrMipmapped \<Rightarrow> GrSurfaceProxyView option"
  GrRenderTargetContext_Make ::
    "GrColorType \<Rightarrow> SkISize \<Rightarrow> SkBudgeted \<Rightarrow> GrSurfaceProxyView option"

text \<open>
  Dereferencing a null pointer ends the call without a result; it is the one fault the
  functions modelled here can raise.
\<close>

datatype fault = NullDereference

section \<open>Identity: the validator and the constructors\<close>

text \<open>
  Modelled from the spec: \<open>SkNextID::ImageID\<close> is declared in \<open>src/core/SkNextID.h\<close>,
  outside the file. The spec's data model says a unique id is "monotonically allocated from
  a shared counter"; the counter is passed in and returned, and each call hands out its
  current value.
\<close>

definition SkNextID_ImageID :: "nat \<Rightarrow> nat \<times> nat" where
  "SkNextID_ImageID nextID = (nextID, Suc nextID)"

text \<open>
  \<open>SkImage_Lazy::Validator\<close>. \<open>operator bool\<close> is \<open>non_null\<close> of the shared
  generator. The id member of a validator that returned early is never assigned by the
  source and never read by its callers; the model writes 0 there.
\<close>

record Validator =
  v_fSharedGenerator :: "SkImageGenerator option"
  v_fInfo :: SkImageInfo
  v_fUniqueID :: nat

definition Validator_ctor ::
    "SkImageGenerator option \<Rightarrow> SkColorType option \<Rightarrow> SkColorSpace option \<Rightarrow> nat
     \<Rightarrow> Validator \<times> nat" where
  "Validator_ctor gen colorType colorSpace nextID =
     (case gen of
        None \<Rightarrow>
          (\<lparr>v_fSharedGenerator = None, v_fInfo = SkImageInfo_default, v_fUniqueID = 0\<rparr>, nextID)
      | Some g \<Rightarrow>
          if SkImageInfo_isEmpty (gen_info g)
          then (\<lparr>v_fSharedGenerator = None, v_fInfo = gen_info g, v_fUniqueID = 0\<rparr>, nextID)
          else
            let colorType' =
                  (if colorType = Some (fColorType (gen_info g)) then None else colorType)
            in if non_null colorType' \<or> non_null colorSpace
               then
                 let info1 = (case colorType' of
                                None \<Rightarrow> gen_info g
                              | Some ct \<Rightarrow> makeColorType (gen_info g) ct);
                     info2 = (case colorSpace of
                                None \<Rightarrow> info1
                              | Some cs \<Rightarrow> makeColorSpace info1 (Some cs))
                 in (case SkNextID_ImageID nextID of
                       (fresh, nextID') \<Rightarrow>
                         (\<lparr>v_fSharedGenerator = Some g, v_fInfo = info2, v_fUniqueID = fresh\<rparr>,
                          nextID'))
               else
                 (\<lparr>v_fSharedGenerator = Some g, v_fInfo = gen_info g,
                   v_fUniqueID = gen_uniqueID g\<rparr>, nextID))"

text \<open>
  \<open>validator ? new SkImage_Lazy(&validator) : nullptr\<close>: the constructor takes the
  validator's info, id and generator; the mutable members start empty.
\<close>

definition new_SkImage_Lazy :: "Validator \<Rightarrow> SkImage_Lazy option" where
  "new_SkImage_Lazy validator =
     (case v_fSharedGenerator validator of
        None \<Rightarrow> None
      | Some g \<Rightarrow> Some (SkImage_Lazy g (v_fInfo validator) (v_fUniqueID validator) False [] None))"

text \<open>
  \<open>SkImage::MakeFromGenerator\<close>: \<open>SharedGenerator::Make\<close> is null for a null generator,
  and the validator is given no colour type and no colour space.
\<close>

definition MakeFromGenerator :: "SkImageGenerator option \<Rightarrow> nat \<Rightarrow> SkImage_Lazy option \<times> nat" where
  "MakeFromGenerator generator nextID =
     (case Validator_ctor generator None None nextID of
        (validator, nextID') \<Rightarrow> (new_SkImage_Lazy validator, nextID'))"

text \<open>
  \<open>onMakeColorTypeAndColorSpace\<close>, under the image's own mutex: the memoized result when
  its colour type and colour space are the targets, else a validator over the same shared
  generator. Returns the result, the image (its slot possibly rewritten) and the id counter.
\<close>

definition memo_matches :: "SkImage_Lazy \<Rightarrow> SkColorType \<Rightarrow> SkColorSpace option \<Rightarrow> bool" where
  "memo_matches this targetCT targetCS =
     (case fOnMakeColorTypeAndSpaceResult this of
        None \<Rightarrow> False
      | Some r \<Rightarrow> targetCT = SkImage_colorType r \<and> SkColorSpace_Equals targetCS (SkImage_colorSpace r))"

definition onMakeColorTypeAndColorSpace ::
    "SkImage_Lazy \<Rightarrow> SkColorType \<Rightarrow> SkColorSpace option \<Rightarrow> nat
     \<Rightarrow> SkImage_Lazy option \<times> SkImage_Lazy \<times> nat" where
  "onMakeColorTypeAndColorSpace this targetCT targetCS nextID =
     (if memo_matches this targetCT targetCS
      then (fOnMakeColorTypeAndSpaceResult this, this, nextID)
      else
        (case Validator_ctor (Some (fSharedGenerator this)) (Some targetCT) targetCS nextID of
           (validator, nextID') \<Rightarrow>
             (case new_SkImage_Lazy validator of
                None \<Rightarrow> (None, this, nextID')
              | Some result \<Rightarrow>
                  (Some result, set_fOnMakeColorTypeAndSpaceResult this result, nextID'))))"

definition onRefEncoded :: "SkImage_Lazy \<Rightarrow> bytes option" where
  "onRefEncoded this =
     (if gen_uniqueID (fSharedGenerator this) = fUniqueID this
      then gen_refEncodedData (fSharedGenerator this)
      else None)"

section \<open>The raster path\<close>

text \<open>\<open>SkBitmapCacheDesc::Make(image)\<close>: the image's id and its full bounds.\<close>

definition SkBitmapCacheDesc_Make :: "SkImage_Lazy \<Rightarrow> SkBitmapCacheDesc" where
  "SkBitmapCacheDesc_Make this = \<lparr>fImageID = fUniqueID this, fSubset = SkImage_dimensions this\<rparr>"

text \<open>
  Modelled from the spec: \<open>SkBitmapCache::Find\<close>, \<open>Alloc\<close> and \<open>Add\<close> are defined
  in \<open>src/core/SkBitmapCache.cpp\<close>, outside the file. The spec gives the cache as a map
  from descriptors to immutable bitmaps, with \<open>find(desc)\<close>, \<open>allocate(desc, info)\<close>
  handing out cache-owned pixels or nothing, and \<open>add(RecPtr)\<close> committing them: a lookup,
  an allocation that the environment lets succeed or fail, and an update of the map.
\<close>

definition SkBitmapCache_Find :: "SkBitmapCacheDesc \<Rightarrow> World \<Rightarrow> SkBitmap option" where
  "SkBitmapCache_Find desc w = bitmapCache w desc"

definition SkBitmapCache_Add :: "SkBitmapCacheDesc \<Rightarrow> SkBitmap \<Rightarrow> World \<Rightarrow> World" where
  "SkBitmapCache_Add desc bitmap w = w\<lparr>bitmapCache := (bitmapCache w)(desc \<mapsto> bitmap)\<rparr>"

text \<open>
  \<open>getROPixels\<close>. A hit returns the cached bitmap. With the hint \<open>kAllow\<close> the pixels are
  decoded into cache-owned storage, which \<open>SkBitmapCache::Add\<close> commits; otherwise into a
  bitmap of the caller's. The generator is not asked when the allocation failed (\<open>||\<close>
  short-circuits). Returns the bitmap (\<open>None\<close> for \<open>false\<close>), the image and the world.
\<close>

definition getROPixels ::
    "Env \<Rightarrow> SkImage_Lazy \<Rightarrow> CachingHint \<Rightarrow> World \<Rightarrow> SkBitmap option \<times> SkImage_Lazy \<times> World" where
  "getROPixels env this chint w =
     (let desc = SkBitmapCacheDesc_Make this in
      case SkBitmapCache_Find desc w of
        Some bitmap \<Rightarrow> (Some bitmap, this, w)
      | None \<Rightarrow>
          if kAllow_CachingHint = chint
          then
            (if SkBitmapCache_Alloc env desc (fInfo this)
             then (case gen_getPixels (fSharedGenerator this) (fInfo this) of
                     None \<Rightarrow> (None, this, w)
                   | Some px \<Rightarrow>
                       let bitmap = \<lparr>bm_info = fInfo this, bm_pixels = CachePixels px,
                                     bm_immutable = True\<rparr>
                       in (Some bitmap, notifyAddedToRasterCache this,
                           SkBitmapCache_Add desc bitmap w))
             else (None, this, w))
          else
            (if tryAllocPixels env (fInfo this)
             then (case gen_getPixels (fSharedGenerator this) (fInfo this) of
                     None \<Rightarrow> (None, this, w)
                   | Some px \<Rightarrow>
                       (Some \<lparr>bm_info = fInfo this, bm_pixels = PrivatePixels px,
                              bm_immutable = True\<rparr>, this, w))
             else (None, this, w)))"

section \<open>The YUV planar path\<close>

definition kMaxCount :: nat where
  "kMaxCount = 4"

text \<open>
  Modelled from the spec: \<open>SkYUVPlanesCache::FindAndRef\<close> and \<open>SkYUVPlanesCache::Add\<close>
  are defined in \<open>src/core/SkYUVPlanesCache.cpp\<close>, outside the file. The spec gives the
  cache as keyed by a unique id, with \<open>find_and_ref(unique_id)\<close> and
  \<open>add(unique_id, CachedData, Info)\<close>: a lookup and an update of a map.
\<close>

definition SkYUVPlanesCache_FindAndRef :: "nat \<Rightarrow> World \<Rightarrow> (SkCachedData \<times> YUVInfo) option" where
  "SkYUVPlanesCache_FindAndRef genID w = yuvPlanesCache w genID"

definition SkYUVPlanesCache_Add :: "nat \<Rightarrow> SkCachedData \<Rightarrow> YUVInfo \<Rightarrow> World \<Rightarrow> World" where
  "SkYUVPlanesCache_Add genID data yuvInfo w =
     w\<lparr>yuvPlanesCache := (yuvPlanesCache w)(genID \<mapsto> (data, yuvInfo))\<rparr>"

text \<open>
  The two loops of \<open>getPlanes\<close> that lay the planes out, one in the branch of a cache hit
  and one in the branch of a miss, each translated from its own lines. The product is taken
  in \<open>size_t\<close>, the height converted from \<open>int\<close>.
\<close>

function hit_planes_loop ::
    "nat \<Rightarrow> SkYUVASizeInfo \<Rightarrow> (nat \<Rightarrow> pointer) \<Rightarrow> (nat \<Rightarrow> pointer)" where
  "hit_planes_loop i sizeInfo planes =
     (if i < kMaxCount
      then (if fWidthBytes sizeInfo i = 0
            then hit_planes_loop (Suc i) sizeInfo (planes(i := nullptr))
            else hit_planes_loop (Suc i) sizeInfo
                   (planes(i := planes (i - 1) +
                      fWidthBytes sizeInfo (i - 1) * of_int (fHeight (fSizes sizeInfo (i - 1))))))
      else planes)"
  by pat_completeness auto
termination
  by (relation "measure (\<lambda>(i, sizeInfo, planes). kMaxCount - i)") auto

function miss_planes_loop ::
    "nat \<Rightarrow> SkYUVASizeInfo \<Rightarrow> (nat \<Rightarrow> pointer) \<Rightarrow> (nat \<Rightarrow> pointer)" where
  "miss_planes_loop i sizeInfo planes =
     (if i < kMaxCount
      then (if fWidthBytes sizeInfo i = 0
            then miss_planes_loop (Suc i) sizeInfo (planes(i := nullptr))
            else miss_planes_loop (Suc i) sizeInfo
                   (planes(i := planes (i - 1) +
                      fWidthBytes sizeInfo (i - 1) * of_int (fHeight (fSizes sizeInfo (i - 1))))))
      else planes)"
  by pat_completeness auto
termination
  by (relation "measure (\<lambda>(i, sizeInfo, planes). kMaxCount - i)") auto

function totalSize_loop :: "nat \<Rightarrow> SkYUVASizeInfo \<Rightarrow> size_t \<Rightarrow> size_t" where
  "totalSize_loop i sizeInfo totalSize =
     (if i < kMaxCount
      then totalSize_loop (Suc i) sizeInfo
             (totalSize + fWidthBytes sizeInfo i * of_int (fHeight (fSizes sizeInfo i)))
      else totalSize)"
  by pat_completeness auto
termination
  by (relation "measure (\<lambda>(i, sizeInfo, totalSize). kMaxCount - i)") auto

declare hit_planes_loop.simps [simp del]
declare miss_planes_loop.simps [simp del]
declare totalSize_loop.simps [simp del]

text \<open>
  The layout in the spec's words, to compare the loops with: "plane pointer i (if non-empty)
  equals plane pointer 0 + the sum over j < i of row_bytes[j] * height[j]".
\<close>

definition spec_plane_pointer :: "pointer \<Rightarrow> SkYUVASizeInfo \<Rightarrow> nat \<Rightarrow> pointer" where
  "spec_plane_pointer plane0 sizeInfo i =
     plane0 + (\<Sum>j<i. fWidthBytes sizeInfo j * of_int (fHeight (fSizes sizeInfo j)))"

text \<open>The value one iteration of either loop stores at index \<open>i\<close>.\<close>

definition plane_step :: "nat \<Rightarrow> SkYUVASizeInfo \<Rightarrow> (nat \<Rightarrow> pointer) \<Rightarrow> pointer" where
  "plane_step i sizeInfo planes =
     (if fWidthBytes sizeInfo i = 0 then nullptr
      else planes (i - 1) +
           fWidthBytes sizeInfo (i - 1) * of_int (fHeight (fSizes sizeInfo (i - 1))))"

text \<open>What \<open>getPlanes\<close> writes through its four out-parameters, and the data it returns.\<close>

record PlanesResult =
  out_yuvaSizeInfo :: SkYUVASizeInfo
  out_yuvaIndices :: "nat \<Rightarrow> int"
  out_yuvColorSpace :: SkYUVColorSpace
  outPlanes :: "nat \<Rightarrow> pointer"
  out_data :: SkCachedData

definition planes_output :: "YUVInfo \<Rightarrow> (nat \<Rightarrow> pointer) \<Rightarrow> SkCachedData \<Rightarrow> PlanesResult" where
  "planes_output yuvInfo planes data =
     \<lparr>out_yuvaSizeInfo = fSizeInfo yuvInfo,
      out_yuvaIndices = fYUVAIndices yuvInfo,
      out_yuvColorSpace = fYUVColorSpace yuvInfo,
      outPlanes = (\<lambda>_. nullptr)(0 := planes 0, 1 := planes 1, 2 := planes 2, 3 := planes 3),
      out_data = data\<rparr>"

text \<open>
  \<open>getPlanes\<close>. The cache is asked under the generator's id; after a miss the planes are
  added under the image's id. The result of \<open>SkResourceCache::NewCachedData\<close> is used
  without a test: \<open>data->writable_data()\<close> on a null result is the fault. \<open>None\<close> is
  the null return; the image itself is not written.
\<close>

definition getPlanes ::
    "Env \<Rightarrow> SkImage_Lazy \<Rightarrow> World \<Rightarrow> fault + (PlanesResult option \<times> World)" where
  "getPlanes env this w =
     (let generator = fSharedGenerator this in
      case SkYUVPlanesCache_FindAndRef (gen_uniqueID generator) w of
        Some (data, yuvInfo) \<Rightarrow>
          let planes = hit_planes_loop 1 (fSizeInfo yuvInfo) ((\<lambda>_. nullptr)(0 := cd_data data))
          in Inr (Some (planes_output yuvInfo planes data), w)
      | None \<Rightarrow>
          (case gen_queryYUVA8 generator of
             None \<Rightarrow> Inr (None, w)
           | Some yuvInfo \<Rightarrow>
               let totalSize = totalSize_loop 0 (fSizeInfo yuvInfo) 0 in
               case NewCachedData env totalSize of
                 None \<Rightarrow> Inl NullDereference
               | Some writable_data \<Rightarrow>
                   let planes = miss_planes_loop 1 (fSizeInfo yuvInfo)
                                  ((\<lambda>_. nullptr)(0 := writable_data))
                   in case gen_getYUVA8Planes generator (fSizeInfo yuvInfo)
                             (fYUVAIndices yuvInfo) planes of
                        None \<Rightarrow> Inr (None, w)
                      | Some decoded \<Rightarrow>
                          let data = \<lparr>cd_data = writable_data, cd_size = totalSize,
                                      cd_contents = decoded\<rparr>
                          in Inr (Some (planes_output yuvInfo planes data),
                                  SkYUVPlanesCache_Add (fUniqueID this) data yuvInfo w)))"

text \<open>
  The loop of \<open>textureProxyViewFromPlanes\<close> over the planes: an empty plane is skipped, a
  plane whose upload fails ends the function with the empty view (\<open>None\<close> here).
\<close>

function yuvViews_loop ::
    "Env \<Rightarrow> SkYUVASizeInfo \<Rightarrow> (nat \<Rightarrow> pointer) \<Rightarrow> nat \<Rightarrow> (nat \<Rightarrow> GrSurfaceProxyView option)
     \<Rightarrow> (nat \<Rightarrow> GrSurfaceProxyView option) option" where
  "yuvViews_loop ctx yuvSizeInfo planes i yuvViews =
     (if i < kMaxCount
      then (if SkISize_isEmpty (fSizes yuvSizeInfo i)
            then yuvViews_loop ctx yuvSizeInfo planes (Suc i) yuvViews
            else
              let componentWidth = fWidth (fSizes yuvSizeInfo i);
                  componentHeight = fHeight (fSizes yuvSizeInfo i);
                  fit = (if componentWidth \<noteq> fWidth (fSizes yuvSizeInfo 0) \<or>
                            componentHeight \<noteq> fHeight (fSizes yuvSizeInfo 0)
                         then kExact else kApprox);
                  bitmap = \<lparr>bm_info = MakeA8 componentWidth componentHeight,
                            bm_pixels = InstalledPixels (planes i) (fWidthBytes yuvSizeInfo i),
                            bm_immutable = True\<rparr>
              in case GrBitmapTextureMaker_fit_view ctx bitmap fit GrMipmapped_kNo of
                   None \<Rightarrow> None
                 | Some view \<Rightarrow>
                     yuvViews_loop ctx yuvSizeInfo planes (Suc i) (yuvViews(i := Some view)))
      else Some yuvViews)"
  by pat_completeness auto
termination
  by (relation "measure (\<lambda>(ctx, yuvSizeInfo, planes, i, yuvViews). kMaxCount - i)") auto

declare yuvViews_loop.simps [simp del]

text \<open>
  \<open>textureProxyViewFromPlanes\<close>. The paint, its fragment processors and the draw have no
  result the function tests; what is returned is the view of the render target, when one
  could be made.
\<close>

definition textureProxyViewFromPlanes ::
    "Env \<Rightarrow> SkImage_Lazy \<Rightarrow> SkBudgeted \<Rightarrow> World
     \<Rightarrow> fault + (GrSurfaceProxyView option \<times> World)" where
  "textureProxyViewFromPlanes ctx this budgeted w =
     (case getPlanes ctx this w of
        Inl f \<Rightarrow> Inl f
      | Inr (dataStorage, w') \<Rightarrow>
          (case dataStorage of
             None \<Rightarrow> Inr (None, w')
           | Some r \<Rightarrow>
               (case yuvViews_loop ctx (out_yuvaSizeInfo r) (outPlanes r) 0 (\<lambda>_. None) of
                  None \<Rightarrow> Inr (None, w')
                | Some yuvViews \<Rightarrow>
                    let ct = SkColorTypeToGrColorType ctx (SkImage_colorType this)
                    in Inr (GrRenderTargetContext_Make ctx ct (SkImage_dimensions this) budgeted,
                            w'))))"

section \<open>The texture cascade\<close>

definition colorTypeOfLockTextureProxy :: "Env \<Rightarrow> SkImage_Lazy \<Rightarrow> GrColorType" where
  "colorTypeOfLockTextureProxy caps this =
     (let ct = SkColorTypeToGrColorType caps (SkImage_colorType this);
          format = caps_getDefaultBackendFormat caps ct GrRenderable_kNo
      in if GrBackendFormat_isValid format then ct else kRGBA_8888)"

definition GrMakeKeyFromImageID :: "nat \<Rightarrow> SkISize \<Rightarrow> GrUniqueKey" where
  "GrMakeKeyFromImageID imageID bounds = \<lparr>key_imageID = imageID, key_bounds = bounds\<rparr>"

definition SK_HISTOGRAM_ENUMERATION :: "LockTexturePath \<Rightarrow> World \<Rightarrow> World" where
  "SK_HISTOGRAM_ENUMERATION sample w = w\<lparr>histogram := histogram w @ [sample]\<rparr>"

text \<open>
  Modelled from the spec: the proxy provider's \<open>findOrCreateProxyByUniqueKey\<close>,
  \<open>assignUniqueKeyToProxy\<close> and \<open>removeUniqueKeyFromProxy\<close> are defined in
  \<open>src/gpu/GrProxyProvider.cpp\<close>, outside the file. The spec gives the texture cache as a
  map from unique keys to proxies, with \<open>find_or_create_proxy_by_unique_key(key)\<close>,
  \<open>assign_unique_key(key, proxy)\<close> ("bind the key to the texture proxy") and
  \<open>remove_unique_key(proxy)\<close> ("detach key from the old proxy").
\<close>

definition findOrCreateProxyByUniqueKey :: "GrUniqueKey \<Rightarrow> World \<Rightarrow> GrTextureProxy option" where
  "findOrCreateProxyByUniqueKey key w = uniquelyKeyedProxies w key"

definition assignUniqueKeyToProxy :: "GrUniqueKey \<Rightarrow> GrTextureProxy \<Rightarrow> World \<Rightarrow> World" where
  "assignUniqueKeyToProxy key proxy w =
     w\<lparr>uniquelyKeyedProxies := (uniquelyKeyedProxies w)(key \<mapsto> proxy)\<rparr>"

definition removeUniqueKeyFromProxy :: "GrTextureProxy \<Rightarrow> World \<Rightarrow> World" where
  "removeUniqueKeyFromProxy proxy w =
     w\<lparr>uniquelyKeyedProxies :=
         (\<lambda>k. if uniquelyKeyedProxies w k = Some proxy then None else uniquelyKeyedProxies w k)\<rparr>"

text \<open>
  Modelled from the spec: \<open>GrCopyBaseMipMapToView\<close> is defined in \<open>src/gpu/SkGr.cpp\<close>,
  outside the file. The spec says it makes "a mipmapped view by copying the base level into
  a fresh mipmapped surface" and can fail: the context answers whether the copy could be
  made and which proxy it is; the view returned is mipmapped and keeps the format, origin
  and swizzle of its source.
\<close>

definition GrCopyBaseMipMapToView :: "Env \<Rightarrow> GrSurfaceProxyView \<Rightarrow> GrSurfaceProxyView option" where
  "GrCopyBaseMipMapToView ctx src =
     (case copy_to_mipped_surface ctx (view_proxy src) of
        None \<Rightarrow> None
      | Some fresh \<Rightarrow>
          Some (src\<lparr>view_proxy :=
                  \<lparr>proxy_id = fresh, proxy_mipmapped = GrMipmapped_kYes,
                   proxy_backendFormat = proxy_backendFormat (view_proxy src)\<rparr>\<rparr>))"

text \<open>
  The lambda \<open>installKey\<close>: when the key is valid, a listener for the key and the context is
  added to the image and the key is assigned to the view's proxy.
\<close>

definition installKey ::
    "Env \<Rightarrow> GrUniqueKey option \<Rightarrow> GrSurfaceProxyView \<Rightarrow> SkImage_Lazy \<Rightarrow> World
     \<Rightarrow> SkImage_Lazy \<times> World" where
  "installKey ctx key view this w =
     (case key of
        None \<Rightarrow> (this, w)
      | Some k \<Rightarrow>
          (addUniqueIDListener this \<lparr>listener_key = k, listener_contextID = contextID ctx\<rparr>,
           assignUniqueKeyToProxy k (view_proxy view) w))"

text \<open>
  How one numbered step of \<open>lockTextureProxyView\<close> ends: it returns from the function, or
  control reaches the next step with the image and the world as the step left them.
\<close>

datatype step_outcome =
    Returned "GrSurfaceProxyView option" SkImage_Lazy World
  | NextStep SkImage_Lazy World

text \<open>1. Check the cache for a pre-existing one.\<close>

definition lock_step1 ::
    "Env \<Rightarrow> SkImage_Lazy \<Rightarrow> GrUniqueKey option \<Rightarrow> GrColorType \<Rightarrow> GrMipmapped \<Rightarrow> World
     \<Rightarrow> step_outcome" where
  "lock_step1 ctx this key ct mipMapped w =
     (case key of
        None \<Rightarrow> NextStep this w
      | Some k \<Rightarrow>
          (case findOrCreateProxyByUniqueKey k w of
             None \<Rightarrow> NextStep this w
           | Some proxy \<Rightarrow>
               let w1 = SK_HISTOGRAM_ENUMERATION kPreExisting_LockTexturePath w;
                   swizzle = caps_getReadSwizzle ctx (proxy_backendFormat proxy) ct;
                   view = \<lparr>view_proxy = proxy, view_origin = kTopLeft_GrSurfaceOrigin,
                           view_swizzle = swizzle\<rparr>
               in if mipMapped = GrMipmapped_kNo \<or> proxy_mipmapped proxy = GrMipmapped_kYes
                  then Returned (Some view) this w1
                  else (case GrCopyBaseMipMapToView ctx view of
                          None \<Rightarrow> Returned (Some view) this w1
                        | Some mippedView \<Rightarrow>
                            (case installKey ctx key mippedView this
                                    (removeUniqueKeyFromProxy proxy w1) of
                               (this', w2) \<Rightarrow> Returned (Some mippedView) this' w2))))"

text \<open>2. Ask the generator to natively create one.\<close>

definition lock_step2 ::
    "Env \<Rightarrow> SkImage_Lazy \<Rightarrow> GrUniqueKey option \<Rightarrow> GrImageTexGenPolicy \<Rightarrow> GrMipmapped \<Rightarrow> World
     \<Rightarrow> step_outcome" where
  "lock_step2 ctx this key texGenPolicy mipMapped w =
     (case gen_generateTexture (fSharedGenerator this) (fInfo this) mipMapped texGenPolicy of
        None \<Rightarrow> NextStep this w
      | Some view \<Rightarrow>
          (case installKey ctx key view this
                  (SK_HISTOGRAM_ENUMERATION kNative_LockTexturePath w) of
             (this', w') \<Rightarrow> Returned (Some view) this' w'))"

text \<open>
  3. Ask the generator to return YUV planes, which the GPU can convert; skipped when the
  texture is to be mipped or the context disables the conversion.
\<close>

definition lock_step3 ::
    "Env \<Rightarrow> SkImage_Lazy \<Rightarrow> GrUniqueKey option \<Rightarrow> GrImageTexGenPolicy \<Rightarrow> GrMipmapped \<Rightarrow> World
     \<Rightarrow> fault + step_outcome" where
  "lock_step3 ctx this key texGenPolicy mipMapped w =
     (if mipMapped = GrMipmapped_kNo \<and> \<not> fDisableGpuYUVConversion ctx
      then
        let budgeted = (if texGenPolicy = kNew_Uncached_Unbudgeted
                        then SkBudgeted_kNo else SkBudgeted_kYes)
        in case textureProxyViewFromPlanes ctx this budgeted w of
             Inl f \<Rightarrow> Inl f
           | Inr (None, w') \<Rightarrow> Inr (NextStep this w')
           | Inr (Some view, w') \<Rightarrow>
               (case installKey ctx key view this
                       (SK_HISTOGRAM_ENUMERATION kYUV_LockTexturePath w') of
                  (this', w'') \<Rightarrow> Inr (Returned (Some view) this' w''))
      else Inr (NextStep this w))"

text \<open>4. Ask the generator to return a bitmap, which the GPU can convert.\<close>

definition lock_step4 ::
    "Env \<Rightarrow> SkImage_Lazy \<Rightarrow> GrUniqueKey option \<Rightarrow> GrImageTexGenPolicy \<Rightarrow> GrMipmapped \<Rightarrow> World
     \<Rightarrow> step_outcome" where
  "lock_step4 ctx this key texGenPolicy mipMapped w =
     (let hint = (if texGenPolicy = kDraw then kAllow_CachingHint else kDisallow_CachingHint)
      in case getROPixels ctx this hint w of
           (None, this', w') \<Rightarrow> NextStep this' w'
         | (Some bitmap, this', w') \<Rightarrow>
             let makerPolicy = (if texGenPolicy = kNew_Uncached_Unbudgeted
                                then kNew_Uncached_Unbudgeted else kNew_Uncached_Budgeted)
             in case GrBitmapTextureMaker_policy_view ctx bitmap makerPolicy mipMapped of
                  None \<Rightarrow> NextStep this' w'
                | Some view \<Rightarrow>
                    (case installKey ctx key view this' w' of
                       (this'', w'') \<Rightarrow>
                         Returned (Some view) this''
                           (SK_HISTOGRAM_ENUMERATION kRGBA_LockTexturePath w'')))"

text \<open>
  \<open>lockTextureProxyView\<close>: the key (valid only under the policy \<open>kDraw\<close>), the colour
  type, the four steps in the order of the source, and the failure sample when none of them
  returned.
\<close>

definition lockTextureProxyView ::
    "Env \<Rightarrow> SkImage_Lazy \<Rightarrow> GrImageTexGenPolicy \<Rightarrow> GrMipmapped \<Rightarrow> World
     \<Rightarrow> fault + (GrSurfaceProxyView option \<times> SkImage_Lazy \<times> World)" where
  "lockTextureProxyView ctx this texGenPolicy mipMapped w =
     (let key = (if texGenPolicy = kDraw
                 then Some (GrMakeKeyFromImageID (fUniqueID this) (SkImage_dimensions this))
                 else None);
          ct = colorTypeOfLockTextureProxy ctx this
      in case lock_step1 ctx this key ct mipMapped w of
           Returned view this1 w1 \<Rightarrow> Inr (view, this1, w1)
         | NextStep this1 w1 \<Rightarrow>
             (case lock_step2 ctx this1 key texGenPolicy mipMapped w1 of
                Returned view this2 w2 \<Rightarrow> Inr (view, this2, w2)
              | NextStep this2 w2 \<Rightarrow>
                  (case lock_step3 ctx this2 key texGenPolicy mipMapped w2 of
                     Inl f \<Rightarrow> Inl f
                   | Inr (Returned view this3 w3) \<Rightarrow> Inr (view, this3, w3)
                   | Inr (NextStep this3 w3) \<Rightarrow>
                       (case lock_step4 ctx this3 key texGenPolicy mipMapped w3 of
                          Returned view this4 w4 \<Rightarrow> Inr (view, this4, w4)
                        | NextStep this4 w4 \<Rightarrow>
                            Inr (None, this4,
                                 SK_HISTOGRAM_ENUMERATION kFailure_LockTexturePath w4)))))"

text \<open>
  The context \<open>ctx\<close> with the colour type arguments of its two operations that take a
  GPU colour type fixed: every read swizzle is that of \<open>swizzleCT\<close> and every render
  target is made with \<open>renderTargetCT\<close>, whatever colour type the caller passes. A call
  with the same result in this context as in \<open>ctx\<close> has passed no other colour type to
  either operation.
\<close>

definition with_color_types :: "Env \<Rightarrow> GrColorType \<Rightarrow> GrColorType \<Rightarrow> Env" where
  "with_color_types ctx swizzleCT renderTargetCT =
     ctx\<lparr>caps_getReadSwizzle := (\<lambda>format _. caps_getReadSwizzle ctx format swizzleCT),
         GrRenderTargetContext_Make := (\<lambda>_. GrRenderTargetContext_Make ctx renderTargetCT)\<rparr>"

section \<open>Invariant of images built by the file's constructors\<close>

text \<open>
  What \<open>MakeFromGenerator\<close> establishes and \<open>onMakeColorTypeAndColorSpace\<close> keeps, for
  an image and the id counter: the ids in sight were handed out before (they are below the
  counter); an image carrying its generator's id carries its generator's info; and the
  memoized child shares the generator and is what a validator made of it, either the
  generator's id with the generator's info, or an id allocated after the image's own, with a
  colour type other than the generator's or a colour space. The child, an image too, keeps
  the invariant itself.
\<close>

definition child_inv :: "SkImage_Lazy \<Rightarrow> SkImage_Lazy \<Rightarrow> bool" where
  "child_inv this child =
     (fSharedGenerator child = fSharedGenerator this \<and>
      (if fUniqueID child = gen_uniqueID (fSharedGenerator this)
       then fInfo child = gen_info (fSharedGenerator this)
       else fUniqueID this < fUniqueID child \<and>
            (SkImage_colorType child = fColorType (gen_info (fSharedGenerator this))
               \<longrightarrow> non_null (SkImage_colorSpace child))))"

fun image_inv :: "nat \<Rightarrow> SkImage_Lazy \<Rightarrow> bool" where
  "image_inv nextID (SkImage_Lazy g info uniqueID added listeners memo) =
     (gen_uniqueID g < nextID \<and>
      uniqueID < nextID \<and>
      (uniqueID = gen_uniqueID g \<longrightarrow> info = gen_info g) \<and>
      (case memo of
         None \<Rightarrow> True
       | Some child \<Rightarrow>
           child_inv (SkImage_Lazy g info uniqueID added listeners memo) child \<and>
           image_inv nextID child))"

section \<open>Concrete inputs\<close>

text \<open>
  A 16 by 16 generator with id 5, colour type 4 and colour space 1, that decodes pixels,
  offers three YUV planes (16 by 16, 8 by 8, 8 by 8; the fourth empty) and has no native
  texture; the image made from it; and a recoloured image over the same generator.
\<close>

definition sample_info :: SkImageInfo where
  "sample_info =
     \<lparr>fDimensions = \<lparr>fWidth = 16, fHeight = 16\<rparr>, fColorType = 4, fAlphaType = 1,
      fColorSpace = Some 1\<rparr>"

definition sample_sizeInfo :: SkYUVASizeInfo where
  "sample_sizeInfo =
     \<lparr>fSizes = (\<lambda>_. \<lparr>fWidth = 0, fHeight = 0\<rparr>)
                 (0 := \<lparr>fWidth = 16, fHeight = 16\<rparr>,
                  1 := \<lparr>fWidth = 8, fHeight = 8\<rparr>,
                  2 := \<lparr>fWidth = 8, fHeight = 8\<rparr>),
      fWidthBytes = (\<lambda>_. 0)(0 := 16, 1 := 8, 2 := 8),
      fOrigin = 1\<rparr>"

definition sample_yuvInfo :: YUVInfo where
  "sample_yuvInfo =
     \<lparr>fSizeInfo = sample_sizeInfo, fYUVAIndices = (\<lambda>_. - 1)(0 := 0, 1 := 1, 2 := 2),
      fYUVColorSpace = 0\<rparr>"

definition sample_generator :: SkImageGenerator where
  "sample_generator =
     \<lparr>gen_info = sample_info, gen_uniqueID = 5,
      gen_getPixels = (\<lambda>_. Some [1, 2, 3, 4]),
      gen_refEncodedData = Some [7, 7],
      gen_isValid = True,
      gen_queryYUVA8 = Some sample_yuvInfo,
      gen_getYUVA8Planes = (\<lambda>_ _ _. Some [9, 9, 9]),
      gen_generateTexture = (\<lambda>_ _ _. None)\<rparr>"

definition sample_image :: SkImage_Lazy where
  "sample_image = SkImage_Lazy sample_generator sample_info 5 False [] None"

definition recolored_image :: SkImage_Lazy where
  "recolored_image =
     SkImage_Lazy sample_generator (sample_info\<lparr>fColorType := 6\<rparr>) 12 False [] None"

definition empty_world :: World where
  "empty_world =
     \<lparr>bitmapCache = Map.empty, yuvPlanesCache = Map.empty, uniquelyKeyedProxies = Map.empty,
      histogram = []\<rparr>"

definition sample_view :: "nat \<Rightarrow> GrMipmapped \<Rightarrow> GrSurfaceProxyView" where
  "sample_view n mipMapped =
     \<lparr>view_proxy = \<lparr>proxy_id = n, proxy_mipmapped = mipMapped,
                     proxy_backendFormat = GrBackendFormat_valid 1\<rparr>,
      view_origin = kTopLeft_GrSurfaceOrigin, view_swizzle = 0\<rparr>"

text \<open>
  A context in which every allocation and every upload succeeds, and the same context with
  a resource cache that cannot allocate.
\<close>

definition sample_ctx :: Env where
  "sample_ctx =
     \<lparr>SkColorTypeToGrColorType = GrColorType_other,
      caps_getDefaultBackendFormat = (\<lambda>_ _. GrBackendFormat_valid 1),
      caps_getReadSwizzle =
        (\<lambda>_ ct. case ct of kRGBA_8888 \<Rightarrow> 1 | GrColorType_other _ \<Rightarrow> 2),
      fDisableGpuYUVConversion = False,
      contextID = 1,
      SkBitmapCache_Alloc = (\<lambda>_ _. True),
      tryAllocPixels = (\<lambda>_. True),
      NewCachedData = (\<lambda>_. Some 4096),
      copy_to_mipped_surface = (\<lambda>_. Some 200),
      GrBitmapTextureMaker_fit_view = (\<lambda>_ _ mipMapped. Some (sample_view 300 mipMapped)),
      GrBitmapTextureMaker_policy_view = (\<lambda>_ _ mipMapped. Some (sample_view 400 mipMapped)),
      GrRenderTargetContext_Make = (\<lambda>_ _ _. Some (sample_view 500 GrMipmapped_kNo))\<rparr>"

definition out_of_memory_ctx :: Env where
  "out_of_memory_ctx = sample_ctx\<lparr>NewCachedData := (\<lambda>_. None)\<rparr>"

text \<open>A context whose caps have no backend format for any colour type.\<close>

definition unsupported_format_ctx :: Env where
  "unsupported_format_ctx =
     sample_ctx\<lparr>caps_getDefaultBackendFormat := (\<lambda>_ _. GrBackendFormat_invalid)\<rparr>"

text \<open>
  A context whose caps have no backend format for any colour type and whose render targets
  tell the colour type they were made with: proxy 501 for \<open>kRGBA_8888\<close>, proxy 502 for
  any other colour type.
\<close>

definition probe_ctx :: Env where
  "probe_ctx =
     unsupported_format_ctx\<lparr>GrRenderTargetContext_Make :=
       (\<lambda>ct _ _. case ct of
                    kRGBA_8888 \<Rightarrow> Some (sample_view 501 GrMipmapped_kNo)
                  | GrColorType_other _ \<Rightarrow> Some (sample_view 502 GrMipmapped_kNo))\<rparr>"

text \<open>A context in which the copy into a mipped surface fails.\<close>

definition failed_copy_ctx :: Env where
  "failed_copy_ctx = sample_ctx\<lparr>copy_to_mipped_surface := (\<lambda>_. None)\<rparr>"

text \<open>An image whose generator cannot decode pixels.\<close>

definition undecodable_image :: SkImage_Lazy where
  "undecodable_image =
     SkImage_Lazy (sample_generator\<lparr>gen_getPixels := (\<lambda>_. None)\<rparr>) sample_info 5 False [] None"

text \<open>The recolouring of the sample image to colour type 6, and the image remembering it.\<close>

definition sample_child :: SkImage_Lazy where
  "sample_child =
     SkImage_Lazy sample_generator (sample_info\<lparr>fColorType := 6\<rparr>) 10 False [] None"


text \<open>
  The texture cache holding a proxy without mip levels under the key of the sample image.
\<close>

definition cached_proxy :: GrTextureProxy where
  "cached_proxy =
     \<lparr>proxy_id = 100, proxy_mipmapped = GrMipmapped_kNo,
      proxy_backendFormat = GrBackendFormat_valid 1\<rparr>"

definition cached_world :: World where
  "cached_world =
     empty_world\<lparr>uniquelyKeyedProxies :=
       [GrMakeKeyFromImageID 5 \<lparr>fWidth = 16, fHeight = 16\<rparr> \<mapsto> cached_proxy]\<rparr>"

text \<open>
  The planes of the sample generator laid out from address 4096: 256 bytes of Y, then 64
  of U, then 64 of V.
\<close>

definition sample_data :: SkCachedData where
  "sample_data = \<lparr>cd_data = 4096, cd_size = 384, cd_contents = [9, 9, 9]\<rparr>"

definition sample_planes :: PlanesResult where
  "sample_planes =
     planes_output sample_yuvInfo ((\<lambda>_. nullptr)(0 := 4096, 1 := 4352, 2 := 4416)) sample_data"

text \<open>
  A size info with a gap: planes 0 and 2 of 4 by 2 bytes, plane 1 empty; and an image whose
  generator answers \<open>queryYUVA8\<close> with it.
\<close>

definition gapped_sizeInfo :: SkYUVASizeInfo where
  "gapped_sizeInfo =
     \<lparr>fSizes = (\<lambda>_. \<lparr>fWidth = 0, fHeight = 0\<rparr>)
                 (0 := \<lparr>fWidth = 4, fHeight = 2\<rparr>, 2 := \<lparr>fWidth = 4, fHeight = 2\<rparr>),
      fWidthBytes = (\<lambda>_. 0)(0 := 4, 2 := 4),
      fOrigin = 1\<rparr>"

definition gapped_image :: SkImage_Lazy where
  "gapped_image =
     SkImage_Lazy
       (sample_generator\<lparr>gen_queryYUVA8 := Some (sample_yuvInfo\<lparr>fSizeInfo := gapped_sizeInfo\<rparr>)\<rparr>)
       sample_info 5 False [] None"

section \<open>What the steps do to the histogram\<close>

lemma installKey_histogram:
  "installKey ctx key view this w = (this', w') \<Longrightarrow> histogram w' = histogram w"
  by (auto simp: installKey_def assignUniqueKeyToProxy_def split: option.splits)

lemma getROPixels_histogram:
  "getROPixels env this chint w = (bitmap, this', w') \<Longrightarrow> histogram w' = histogram w"
  by (auto simp: getROPixels_def SkBitmapCache_Find_def SkBitmapCache_Add_def Let_def split: option.splits if_splits)

lemma getPlanes_histogram:
  "getPlanes env this w = Inr (r, w') \<Longrightarrow> histogram w' = histogram w"
  by (auto simp: getPlanes_def Let_def SkYUVPlanesCache_Add_def split: option.splits prod.splits)

lemma textureProxyViewFromPlanes_histogram:
  "textureProxyViewFromPlanes ctx this budgeted w = Inr (view, w') \<Longrightarrow>
     histogram w' = histogram w"
  by (auto simp: textureProxyViewFromPlanes_def Let_def
      split: sum.splits option.splits prod.splits dest: getPlanes_histogram)

lemma lock_step1_Returned:
  "lock_step1 ctx this key ct mipMapped w = Returned view this' w' \<Longrightarrow>
     histogram w' = histogram w @ [kPreExisting_LockTexturePath] \<and> view \<noteq> None"
  by (auto simp: lock_step1_def Let_def SK_HISTOGRAM_ENUMERATION_def removeUniqueKeyFromProxy_def
      split: option.splits if_splits prod.splits dest!: installKey_histogram dest: sym)

lemma lock_step1_NextStep:
  "lock_step1 ctx this key ct mipMapped w = NextStep this' w' \<Longrightarrow> this' = this \<and> w' = w"
  by (auto simp: lock_step1_def Let_def split: option.splits if_splits prod.splits)

lemma lock_step2_Returned:
  "lock_step2 ctx this key texGenPolicy mipMapped w = Returned view this' w' \<Longrightarrow>
     histogram w' = histogram w @ [kNative_LockTexturePath] \<and> view \<noteq> None"
  by (auto simp: lock_step2_def SK_HISTOGRAM_ENUMERATION_def
      split: option.splits prod.splits dest!: installKey_histogram dest: sym)

lemma lock_step2_NextStep:
  "lock_step2 ctx this key texGenPolicy mipMapped w = NextStep this' w' \<Longrightarrow>
     this' = this \<and> w' = w"
  by (auto simp: lock_step2_def split: option.splits prod.splits)

lemma lock_step3_Returned:
  "lock_step3 ctx this key texGenPolicy mipMapped w = Inr (Returned view this' w') \<Longrightarrow>
     histogram w' = histogram w @ [kYUV_LockTexturePath] \<and> view \<noteq> None"
  by (auto simp: lock_step3_def Let_def SK_HISTOGRAM_ENUMERATION_def
      split: option.splits prod.splits sum.splits if_splits
      dest!: installKey_histogram textureProxyViewFromPlanes_histogram)

lemma lock_step3_NextStep:
  "lock_step3 ctx this key texGenPolicy mipMapped w = Inr (NextStep this' w') \<Longrightarrow>
     histogram w' = histogram w \<and> this' = this"
  by (auto simp: lock_step3_def Let_def
      split: option.splits prod.splits sum.splits if_splits
      dest!: textureProxyViewFromPlanes_histogram)

lemma lock_step4_Returned:
  "lock_step4 ctx this key texGenPolicy mipMapped w = Returned view this' w' \<Longrightarrow>
     histogram w' = histogram w @ [kRGBA_LockTexturePath] \<and> view \<noteq> None"
  by (auto simp: lock_step4_def Let_def SK_HISTOGRAM_ENUMERATION_def
      split: option.splits prod.splits
      dest!: installKey_histogram getROPixels_histogram dest: sym)

lemma lock_step4_NextStep:
  "lock_step4 ctx this key texGenPolicy mipMapped w = NextStep this' w' \<Longrightarrow>
     histogram w' = histogram w"
  by (auto simp: lock_step4_def Let_def
      split: option.splits prod.splits
      dest!: getROPixels_histogram)

text \<open>
  A call of \<open>lockTextureProxyView\<close> that returns has recorded one sample, never the
  deprecated one, and the failure sample exactly when the view returned is empty.
\<close>

lemma lockTextureProxyView_one_sample:
  assumes "lockTextureProxyView ctx this texGenPolicy mipMapped w = Inr (view, this', w')"
  shows "\<exists>sample. histogram w' = histogram w @ [sample] \<and>
           sample \<noteq> kCompressed_LockTexturePath \<and>
           (sample = kFailure_LockTexturePath \<longleftrightarrow> view = None)"
  using assms
  unfolding lockTextureProxyView_def Let_def
  by (auto simp: SK_HISTOGRAM_ENUMERATION_def split: step_outcome.splits sum.splits
      dest!: lock_step1_Returned lock_step1_NextStep lock_step2_Returned lock_step2_NextStep
             lock_step3_Returned lock_step3_NextStep lock_step4_Returned lock_step4_NextStep)

text \<open>
  The sample of a call that returns is that of the first step, in the order of the source,
  that returned a view; each step runs on the image and the world the steps before it left.
\<close>

lemma lockTextureProxyView_sample_order:
  assumes "lockTextureProxyView ctx this texGenPolicy mipMapped w = Inr (view, this', w')"
      and "key = (if texGenPolicy = kDraw
                  then Some (GrMakeKeyFromImageID (fUniqueID this) (SkImage_dimensions this))
                  else None)"
  shows "histogram w' = histogram w @
           [case lock_step1 ctx this key (colorTypeOfLockTextureProxy ctx this) mipMapped w of
              Returned v1 this1 w1 \<Rightarrow> kPreExisting_LockTexturePath
            | NextStep this1 w1 \<Rightarrow>
                (case lock_step2 ctx this1 key texGenPolicy mipMapped w1 of
                   Returned v2 this2 w2 \<Rightarrow> kNative_LockTexturePath
                 | NextStep this2 w2 \<Rightarrow>
                     (case lock_step3 ctx this2 key texGenPolicy mipMapped w2 of
                        Inl f \<Rightarrow> kFailure_LockTexturePath
                      | Inr (Returned v3 this3 w3) \<Rightarrow> kYUV_LockTexturePath
                      | Inr (NextStep this3 w3) \<Rightarrow>
                          (case lock_step4 ctx this3 key texGenPolicy mipMapped w3 of
                             Returned v4 this4 w4 \<Rightarrow> kRGBA_LockTexturePath
                           | NextStep this4 w4 \<Rightarrow> kFailure_LockTexturePath)))]"
proof -
  let ?ct = "colorTypeOfLockTextureProxy ctx this"
  from assms(1) have run:
    "(case lock_step1 ctx this key ?ct mipMapped w of
        Returned view this1 w1 \<Rightarrow> Inr (view, this1, w1)
      | NextStep this1 w1 \<Rightarrow>
          (case lock_step2 ctx this1 key texGenPolicy mipMapped w1 of
             Returned view this2 w2 \<Rightarrow> Inr (view, this2, w2)
           | NextStep this2 w2 \<Rightarrow>
               (case lock_step3 ctx this2 key texGenPolicy mipMapped w2 of
                  Inl f \<Rightarrow> Inl f
                | Inr (Returned view this3 w3) \<Rightarrow> Inr (view, this3, w3)
                | Inr (NextStep this3 w3) \<Rightarrow>
                    (case lock_step4 ctx this3 key texGenPolicy mipMapped w3 of
                       Returned view this4 w4 \<Rightarrow> Inr (view, this4, w4)
                     | NextStep this4 w4 \<Rightarrow>
                         Inr (None, this4,
                              SK_HISTOGRAM_ENUMERATION kFailure_LockTexturePath w4)))))
     = Inr (view, this', w')"
    unfolding lockTextureProxyView_def Let_def assms(2) .
  show ?thesis
  proof (cases "lock_step1 ctx this key ?ct mipMapped w")
    case r1: (Returned v1 this1 w1)
    with run have "w' = w1" by simp
    with lock_step1_Returned [OF r1] r1 show ?thesis by simp
  next
    case n1: (NextStep this1 w1)
    note s1 = lock_step1_NextStep [OF n1]
    show ?thesis
    proof (cases "lock_step2 ctx this1 key texGenPolicy mipMapped w1")
      case r2: (Returned v2 this2 w2)
      with run n1 have "w' = w2" by simp
      with lock_step2_Returned [OF r2] r2 n1 s1 show ?thesis by simp
    next
      case n2: (NextStep this2 w2)
      note s2 = lock_step2_NextStep [OF n2]
      show ?thesis
      proof (cases "lock_step3 ctx this2 key texGenPolicy mipMapped w2")
        case (Inl f)
        with run n1 n2 show ?thesis by simp
      next
        case o3: (Inr outcome)
        show ?thesis
        proof (cases outcome)
          case r3: (Returned v3 this3 w3)
          with run n1 n2 o3 have "w' = w3" by simp
          with lock_step3_Returned [OF o3 [unfolded r3]] r3 o3 n1 n2 s1 s2
          show ?thesis by simp
        next
          case n3: (NextStep this3 w3)
          note s3 = lock_step3_NextStep [OF o3 [unfolded n3]]
          show ?thesis
          proof (cases "lock_step4 ctx this3 key texGenPolicy mipMapped w3")
            case r4: (Returned v4 this4 w4)
            with run n1 n2 o3 n3 have "w' = w4" by simp
            with lock_step4_Returned [OF r4] r4 n3 o3 n1 n2 s1 s2 s3
            show ?thesis by simp
          next
            case n4: (NextStep this4 w4)
            with run n1 n2 o3 n3
            have "w' = SK_HISTOGRAM_ENUMERATION kFailure_LockTexturePath w4" by simp
            with lock_step4_NextStep [OF n4] n4 n3 o3 n1 n2 s1 s2 s3
            show ?thesis by (simp add: SK_HISTOGRAM_ENUMERATION_def)
          qed
        qed
      qed
    qed
  qed
qed

section \<open>The layout loops of getPlanes\<close>

lemma hit_miss_planes_loop:
  "hit_planes_loop i sizeInfo planes = miss_planes_loop i sizeInfo planes"
proof (induction i sizeInfo planes rule: hit_planes_loop.induct)
  case (1 i sizeInfo planes)
  then show ?case
    by (subst hit_planes_loop.simps, subst miss_planes_loop.simps) (simp add: fun_upd_def)
qed

lemma miss_planes_loop_unfold:
  "i < kMaxCount \<Longrightarrow>
     miss_planes_loop i sizeInfo planes =
       miss_planes_loop (Suc i) sizeInfo (planes(i := plane_step i sizeInfo planes))"
  by (subst miss_planes_loop.simps) (simp add: plane_step_def)

lemma miss_planes_loop_done:
  "\<not> i < kMaxCount \<Longrightarrow> miss_planes_loop i sizeInfo planes = planes"
  by (subst miss_planes_loop.simps) simp

text \<open>The loop leaves the entries below its index as they are.\<close>

lemma miss_planes_loop_below:
  "j < i \<Longrightarrow> miss_planes_loop i sizeInfo planes j = planes j"
proof (induction i sizeInfo planes rule: miss_planes_loop.induct)
  case (1 i sizeInfo planes)
  show ?case
  proof (cases "i < kMaxCount")
    case True
    with 1 show ?thesis
      by (subst miss_planes_loop.simps) (auto simp: fun_upd_def)
  next
    case False
    then show ?thesis by (simp add: miss_planes_loop_done)
  qed
qed

text \<open>
  Every entry the loop writes is one step from the entry before it, in the array the loop
  returns.
\<close>

lemma miss_planes_loop_at:
  "0 < i \<Longrightarrow> i \<le> j \<Longrightarrow> j < kMaxCount \<Longrightarrow>
     miss_planes_loop i sizeInfo planes j =
       plane_step j sizeInfo (miss_planes_loop i sizeInfo planes)"
proof (induction i sizeInfo planes rule: miss_planes_loop.induct)
  case (1 i sizeInfo planes)
  from 1(4,5) have lt: "i < kMaxCount" by simp
  define v where "v = plane_step i sizeInfo planes"
  let ?planes' = "planes(i := v)"
  have unfold: "miss_planes_loop i sizeInfo planes = miss_planes_loop (Suc i) sizeInfo ?planes'"
    unfolding v_def using lt by (rule miss_planes_loop_unfold)
  show ?case
  proof (cases "j = i")
    case True
    have a: "miss_planes_loop (Suc i) sizeInfo ?planes' i = v"
      using miss_planes_loop_below [of i "Suc i" sizeInfo ?planes'] by simp
    have "i - 1 < Suc i" "i - 1 \<noteq> i"
      using 1(3) by simp_all
    then have b: "miss_planes_loop (Suc i) sizeInfo ?planes' (i - 1) = planes (i - 1)"
      using miss_planes_loop_below [of "i - 1" "Suc i" sizeInfo ?planes'] by simp
    have "plane_step i sizeInfo (miss_planes_loop (Suc i) sizeInfo ?planes') =
            plane_step i sizeInfo planes"
      by (simp only: plane_step_def b)
    then show ?thesis
      unfolding True unfold a by (simp only: v_def)
  next
    case False
    with 1(4) have le: "Suc i \<le> j" by simp
    have "miss_planes_loop (Suc i) sizeInfo ?planes' j =
            plane_step j sizeInfo (miss_planes_loop (Suc i) sizeInfo ?planes')"
    proof (cases "fWidthBytes sizeInfo i = 0")
      case True
      then have eq: "?planes' = planes(i := nullptr)"
        by (simp add: v_def plane_step_def)
      show ?thesis
        unfolding eq by (rule 1(1) [OF lt True zero_less_Suc le 1(5)])
    next
      case False
      then have eq: "?planes' = planes(i := planes (i - 1) +
            fWidthBytes sizeInfo (i - 1) * of_int (fHeight (fSizes sizeInfo (i - 1))))"
        by (simp add: v_def plane_step_def)
      show ?thesis
        unfolding eq by (rule 1(2) [OF lt False zero_less_Suc le 1(5)])
    qed
    then show ?thesis by (simp only: unfold)
  qed
qed

text \<open>
  While no plane from 1 to \<open>i\<close> is empty, the loop started at 1 computes the sum of the
  spec.
\<close>

lemma miss_planes_loop_closed_form:
  assumes "0 < i" "i < kMaxCount" "\<forall>j. 0 < j \<and> j \<le> i \<longrightarrow> fWidthBytes sizeInfo j \<noteq> 0"
  shows "miss_planes_loop (Suc 0) sizeInfo planes i = spec_plane_pointer (planes 0) sizeInfo i"
  using assms
proof (induction i)
  case 0
  then show ?case by simp
next
  case (Suc i)
  have at: "miss_planes_loop (Suc 0) sizeInfo planes (Suc i) =
              plane_step (Suc i) sizeInfo (miss_planes_loop (Suc 0) sizeInfo planes)"
    using Suc.prems(2) by (intro miss_planes_loop_at) simp_all
  have nz: "fWidthBytes sizeInfo (Suc i) \<noteq> 0" using Suc.prems(3) by simp
  have prev: "miss_planes_loop (Suc 0) sizeInfo planes i =
                spec_plane_pointer (planes 0) sizeInfo i"
  proof (cases "i = 0")
    case True
    then show ?thesis
      by (simp add: miss_planes_loop_below spec_plane_pointer_def)
  next
    case False
    with Suc show ?thesis by simp
  qed
  show ?case
    using nz prev at by (simp add: plane_step_def spec_plane_pointer_def)
qed

lemma miss_planes_loop_empty_plane:
  "0 < i \<Longrightarrow> i < kMaxCount \<Longrightarrow> fWidthBytes sizeInfo i = 0 \<Longrightarrow>
     miss_planes_loop (Suc 0) sizeInfo planes i = nullptr"
  using miss_planes_loop_at [of "Suc 0" i sizeInfo planes] by (simp add: plane_step_def)

text \<open>What a successful \<open>getPlanes\<close> returns, on either path.\<close>

lemma getPlanes_result:
  assumes "getPlanes env this w = Inr (Some r, w')"
  shows "\<exists>yuvInfo planes.
           r = planes_output yuvInfo planes (out_data r) \<and>
           planes = miss_planes_loop 1 (fSizeInfo yuvInfo)
                      ((\<lambda>_. nullptr)(0 := cd_data (out_data r)))"
  using assms
  by (auto simp: getPlanes_def Let_def planes_output_def hit_miss_planes_loop
      SkYUVPlanesCache_FindAndRef_def
      split: option.splits prod.splits)

lemma planes_output_apply:
  "i < kMaxCount \<Longrightarrow> outPlanes (planes_output yuvInfo planes data) i = planes i"
proof -
  assume "i < kMaxCount"
  then have "i = 0 \<or> i = 1 \<or> i = 2 \<or> i = 3"
    by (auto simp: kMaxCount_def)
  then show ?thesis
    by (auto simp: planes_output_def)
qed

text \<open>The planes of the sample generator, evaluated.\<close>

lemma getPlanes_sample:
  "getPlanes sample_ctx (SkImage_Lazy sample_generator info uniqueID added listeners memo)
     empty_world =
     Inr (Some sample_planes, SkYUVPlanesCache_Add uniqueID sample_data sample_yuvInfo empty_world)"
  by (simp add: getPlanes_def sample_ctx_def empty_world_def
      SkYUVPlanesCache_FindAndRef_def sample_generator_def sample_yuvInfo_def sample_sizeInfo_def
      sample_planes_def sample_data_def planes_output_def Let_def nullptr_def kMaxCount_def
      miss_planes_loop.simps totalSize_loop.simps)

section \<open>The invariant is established and kept\<close>

lemma image_inv_mono:
  "image_inv n img \<Longrightarrow> n \<le> m \<Longrightarrow> image_inv m img"
proof (induction img)
  case (SkImage_Lazy g info uniqueID added listeners memo)
  then show ?case
    by (cases memo) auto
qed

lemma MakeFromGenerator_image_inv:
  "gen_uniqueID g < nextID \<Longrightarrow> MakeFromGenerator (Some g) nextID = (Some img, nextID') \<Longrightarrow>
     image_inv nextID' img \<and> nextID' = nextID \<and> fUniqueID img = gen_uniqueID g"
  by (auto simp: MakeFromGenerator_def Validator_ctor_def new_SkImage_Lazy_def non_null_def Let_def
      split: if_splits)

lemma onMakeColorTypeAndColorSpace_image_inv:
  assumes "image_inv nextID this"
      and "onMakeColorTypeAndColorSpace this targetCT targetCS nextID =
             (Some result, this', nextID')"
  shows "image_inv nextID' this' \<and> image_inv nextID' result \<and> nextID \<le> nextID'"
proof (cases this)
  case (SkImage_Lazy g info uniqueID added listeners memo)
  show ?thesis
  proof (cases "memo_matches this targetCT targetCS")
    case True
    with assms SkImage_Lazy show ?thesis
      by (auto simp: onMakeColorTypeAndColorSpace_def memo_matches_def split: option.splits)
  next
    case False
    have mono: "image_inv (Suc nextID) c" if "image_inv nextID c" for c
      using that by (rule image_inv_mono) simp
    from False assms SkImage_Lazy show ?thesis
      by (auto simp: onMakeColorTypeAndColorSpace_def Validator_ctor_def new_SkImage_Lazy_def
          SkNextID_ImageID_def set_fOnMakeColorTypeAndSpaceResult_def child_inv_def
          SkImage_colorType_def SkImage_colorSpace_def makeColorType_def makeColorSpace_def
          non_null_def Let_def
          split: if_splits option.splits intro: mono)
  qed
qed


lemma mipped_proxy_differs:
  "proxy_mipmapped proxy = GrMipmapped_kNo \<Longrightarrow>
     \<lparr>proxy_id = fresh, proxy_mipmapped = GrMipmapped_kYes, proxy_backendFormat = format\<rparr>
       \<noteq> proxy"
  by auto

text \<open>
  When \<open>SkBitmapCache::Alloc\<close> fails, \<open>getROPixels\<close> returns \<open>false\<close> and has written
  neither the image nor a cache.
\<close>

lemma getROPixels_alloc_failure:
  "\<not> SkBitmapCache_Alloc env (SkBitmapCacheDesc_Make this) (fInfo this) \<Longrightarrow>
   bitmapCache w (SkBitmapCacheDesc_Make this) = None \<Longrightarrow>
     getROPixels env this kAllow_CachingHint w = (None, this, w)"
  by (simp add: getROPixels_def SkBitmapCache_Find_def SkBitmapCache_Add_def Let_def)


section \<open>The memoized recolouring\<close>






section \<open>The colour types a call passes to the GPU\<close>

text \<open>
  No function of the file depends on the colour type argument of the read swizzle or of the
  render target other than through the colour types it passes itself.
\<close>

lemma yuvViews_loop_cong:
  "GrBitmapTextureMaker_fit_view ctx' = GrBitmapTextureMaker_fit_view ctx \<Longrightarrow>
     yuvViews_loop ctx' yuvSizeInfo planes i yuvViews =
     yuvViews_loop ctx yuvSizeInfo planes i yuvViews"
proof (induction ctx yuvSizeInfo planes i yuvViews rule: yuvViews_loop.induct)
  case (1 ctx yuvSizeInfo planes i yuvViews)
  have unfold': "yuvViews_loop ctx' yuvSizeInfo planes i yuvViews =
      (if i < kMaxCount
       then (if SkISize_isEmpty (fSizes yuvSizeInfo i)
             then yuvViews_loop ctx' yuvSizeInfo planes (Suc i) yuvViews
             else
               let componentWidth = fWidth (fSizes yuvSizeInfo i);
                   componentHeight = fHeight (fSizes yuvSizeInfo i);
                   fit = (if componentWidth \<noteq> fWidth (fSizes yuvSizeInfo 0) \<or>
                             componentHeight \<noteq> fHeight (fSizes yuvSizeInfo 0)
                          then kExact else kApprox);
                   bitmap = \<lparr>bm_info = MakeA8 componentWidth componentHeight,
                             bm_pixels = InstalledPixels (planes i) (fWidthBytes yuvSizeInfo i),
                             bm_immutable = True\<rparr>
               in case GrBitmapTextureMaker_fit_view ctx' bitmap fit GrMipmapped_kNo of
                    None \<Rightarrow> None
                  | Some view \<Rightarrow>
                      yuvViews_loop ctx' yuvSizeInfo planes (Suc i) (yuvViews(i := Some view)))
       else Some yuvViews)"
    by (rule yuvViews_loop.simps)
  have unfold: "yuvViews_loop ctx yuvSizeInfo planes i yuvViews =
      (if i < kMaxCount
       then (if SkISize_isEmpty (fSizes yuvSizeInfo i)
             then yuvViews_loop ctx yuvSizeInfo planes (Suc i) yuvViews
             else
               let componentWidth = fWidth (fSizes yuvSizeInfo i);
                   componentHeight = fHeight (fSizes yuvSizeInfo i);
                   fit = (if componentWidth \<noteq> fWidth (fSizes yuvSizeInfo 0) \<or>
                             componentHeight \<noteq> fHeight (fSizes yuvSizeInfo 0)
                          then kExact else kApprox);
                   bitmap = \<lparr>bm_info = MakeA8 componentWidth componentHeight,
                             bm_pixels = InstalledPixels (planes i) (fWidthBytes yuvSizeInfo i),
                             bm_immutable = True\<rparr>
               in case GrBitmapTextureMaker_fit_view ctx bitmap fit GrMipmapped_kNo of
                    None \<Rightarrow> None
                  | Some view \<Rightarrow>
                      yuvViews_loop ctx yuvSizeInfo planes (Suc i) (yuvViews(i := Some view)))
       else Some yuvViews)"
    by (rule yuvViews_loop.simps)
  from 1 show ?case
    unfolding unfold' unfold
    by (simp add: Let_def fun_upd_def cong: option.case_cong if_cong)
qed

lemma with_color_types_fields [simp]:
  "SkColorTypeToGrColorType (with_color_types ctx a b) = SkColorTypeToGrColorType ctx"
  "caps_getDefaultBackendFormat (with_color_types ctx a b) = caps_getDefaultBackendFormat ctx"
  "caps_getReadSwizzle (with_color_types ctx a b) format ct = caps_getReadSwizzle ctx format a"
  "fDisableGpuYUVConversion (with_color_types ctx a b) = fDisableGpuYUVConversion ctx"
  "contextID (with_color_types ctx a b) = contextID ctx"
  "SkBitmapCache_Alloc (with_color_types ctx a b) = SkBitmapCache_Alloc ctx"
  "tryAllocPixels (with_color_types ctx a b) = tryAllocPixels ctx"
  "NewCachedData (with_color_types ctx a b) = NewCachedData ctx"
  "copy_to_mipped_surface (with_color_types ctx a b) = copy_to_mipped_surface ctx"
  "GrBitmapTextureMaker_fit_view (with_color_types ctx a b) = GrBitmapTextureMaker_fit_view ctx"
  "GrBitmapTextureMaker_policy_view (with_color_types ctx a b) =
     GrBitmapTextureMaker_policy_view ctx"
  "GrRenderTargetContext_Make (with_color_types ctx a b) ct = GrRenderTargetContext_Make ctx b"
  by (simp_all add: with_color_types_def)

lemma getPlanes_with_color_types:
  "getPlanes (with_color_types ctx a b) this w = getPlanes ctx this w"
  by (simp add: getPlanes_def Let_def cong: option.case_cong if_cong)

lemma getROPixels_with_color_types:
  "getROPixels (with_color_types ctx a b) this chint w = getROPixels ctx this chint w"
  by (simp add: getROPixels_def Let_def cong: option.case_cong if_cong)

lemma installKey_with_color_types:
  "installKey (with_color_types ctx a b) key view this w = installKey ctx key view this w"
  by (simp add: installKey_def Let_def cong: option.case_cong if_cong)

lemma textureProxyViewFromPlanes_with_color_types:
  "textureProxyViewFromPlanes
     (with_color_types ctx a (SkColorTypeToGrColorType ctx (SkImage_colorType this)))
     this budgeted w =
   textureProxyViewFromPlanes ctx this budgeted w"
proof -
  have loop: "yuvViews_loop
      (with_color_types ctx a (SkColorTypeToGrColorType ctx (SkImage_colorType this)))
      si planes i views = yuvViews_loop ctx si planes i views" for si planes i views
    by (rule yuvViews_loop_cong) simp
  show ?thesis
    by (simp add: textureProxyViewFromPlanes_def getPlanes_with_color_types loop Let_def
        cong: option.case_cong if_cong sum.case_cong prod.case_cong)
qed

lemma colorTypeOfLockTextureProxy_with_color_types:
  "colorTypeOfLockTextureProxy (with_color_types ctx a b) this =
     colorTypeOfLockTextureProxy ctx this"
  by (simp add: colorTypeOfLockTextureProxy_def)

lemma GrCopyBaseMipMapToView_with_color_types:
  "GrCopyBaseMipMapToView (with_color_types ctx a b) view = GrCopyBaseMipMapToView ctx view"
  by (simp add: GrCopyBaseMipMapToView_def Let_def cong: option.case_cong if_cong)

lemma lock_step1_with_color_types:
  "lock_step1 (with_color_types ctx ct b) this key ct mipMapped w =
     lock_step1 ctx this key ct mipMapped w"
  by (simp add: lock_step1_def installKey_with_color_types
      GrCopyBaseMipMapToView_with_color_types Let_def cong: option.case_cong if_cong)

lemma lock_step2_with_color_types:
  "lock_step2 (with_color_types ctx a b) this key texGenPolicy mipMapped w =
     lock_step2 ctx this key texGenPolicy mipMapped w"
  by (simp add: lock_step2_def installKey_with_color_types Let_def
      cong: option.case_cong if_cong)

lemma lock_step3_with_color_types:
  "lock_step3 (with_color_types ctx a (SkColorTypeToGrColorType ctx (SkImage_colorType this)))
     this key texGenPolicy mipMapped w =
   lock_step3 ctx this key texGenPolicy mipMapped w"
  by (simp add: lock_step3_def textureProxyViewFromPlanes_with_color_types
      installKey_with_color_types Let_def
      cong: option.case_cong if_cong sum.case_cong prod.case_cong)

lemma lock_step4_with_color_types:
  "lock_step4 (with_color_types ctx a b) this key texGenPolicy mipMapped w =
     lock_step4 ctx this key texGenPolicy mipMapped w"
  by (simp add: lock_step4_def getROPixels_with_color_types installKey_with_color_types Let_def
      cong: option.case_cong if_cong prod.case_cong)

lemma lockTextureProxyView_with_color_types:
  "lockTextureProxyView
     (with_color_types ctx (colorTypeOfLockTextureProxy ctx this)
        (SkColorTypeToGrColorType ctx (SkImage_colorType this)))
     this texGenPolicy mipMapped w =
   lockTextureProxyView ctx this texGenPolicy mipMapped w"
proof -
  let ?ctx = "with_color_types ctx (colorTypeOfLockTextureProxy ctx this)
                (SkColorTypeToGrColorType ctx (SkImage_colorType this))"
  let ?key = "if texGenPolicy = kDraw
              then Some (GrMakeKeyFromImageID (fUniqueID this) (SkImage_dimensions this))
              else None"
  let ?ct = "colorTypeOfLockTextureProxy ctx this"
  show ?thesis
  proof (cases "lock_step1 ctx this ?key ?ct mipMapped w")
    case (Returned v1 this1 w1)
    then show ?thesis
      by (simp add: lockTextureProxyView_def colorTypeOfLockTextureProxy_with_color_types
          lock_step1_with_color_types)
  next
    case n1: (NextStep this1 w1)
    from lock_step1_NextStep [OF n1] have same: "this1 = this" "w1 = w" by simp_all
    show ?thesis
    proof (cases "lock_step2 ctx this ?key texGenPolicy mipMapped w")
      case (Returned v2 this2 w2)
      with n1 same show ?thesis
        by (simp add: lockTextureProxyView_def colorTypeOfLockTextureProxy_with_color_types
            lock_step1_with_color_types lock_step2_with_color_types)
    next
      case n2: (NextStep this2 w2)
      from lock_step2_NextStep [OF n2] have same2: "this2 = this" "w2 = w" by simp_all
      show ?thesis
      proof (cases "lock_step3 ctx this ?key texGenPolicy mipMapped w")
        case (Inl f)
        with n1 n2 same same2 show ?thesis
          by (simp add: lockTextureProxyView_def colorTypeOfLockTextureProxy_with_color_types
              lock_step1_with_color_types lock_step2_with_color_types
              lock_step3_with_color_types)
      next
        case (Inr outcome)
        with n1 n2 same same2 show ?thesis
          by (cases outcome)
             (simp_all add: lockTextureProxyView_def colorTypeOfLockTextureProxy_with_color_types
               lock_step1_with_color_types lock_step2_with_color_types
               lock_step3_with_color_types lock_step4_with_color_types)
      qed
    qed
  qed
qed

text \<open>
  The view of a call answered from the texture cache has the read swizzle of the colour type
  \<open>colorTypeOfLockTextureProxy\<close>; the view of a call answered by the YUV step is the
  render target made with \<open>SkColorTypeToGrColorType\<close> of the image's colour type.
\<close>

lemma lock_step1_cached:
  "findOrCreateProxyByUniqueKey k w = Some proxy \<Longrightarrow>
     \<exists>view this' w'. lock_step1 ctx this (Some k) ct mipMapped w = Returned (Some view) this' w' \<and>
        view_swizzle view = caps_getReadSwizzle ctx (proxy_backendFormat proxy) ct"
  by (auto simp: lock_step1_def Let_def GrCopyBaseMipMapToView_def installKey_def
      split: option.splits)

lemma lock_step3_Returned_view:
  "lock_step3 ctx this key texGenPolicy mipMapped w = Inr (Returned view this' w') \<Longrightarrow>
     view = GrRenderTargetContext_Make ctx (SkColorTypeToGrColorType ctx (SkImage_colorType this))
              (SkImage_dimensions this)
              (if texGenPolicy = kNew_Uncached_Unbudgeted then SkBudgeted_kNo else SkBudgeted_kYes)"
  by (auto simp: lock_step3_def textureProxyViewFromPlanes_def Let_def
      split: option.splits prod.splits sum.splits if_splits)

lemma lockTextureProxyView_cached:
  assumes "uniquelyKeyedProxies w
             (GrMakeKeyFromImageID (fUniqueID this) (SkImage_dimensions this)) = Some proxy"
  shows "\<exists>view this' w'.
           lockTextureProxyView ctx this kDraw mipMapped w = Inr (Some view, this', w') \<and>
           histogram w' = histogram w @ [kPreExisting_LockTexturePath] \<and>
           view_swizzle view =
             caps_getReadSwizzle ctx (proxy_backendFormat proxy)
               (colorTypeOfLockTextureProxy ctx this)"
proof -
  let ?k = "GrMakeKeyFromImageID (fUniqueID this) (SkImage_dimensions this)"
  from assms have "findOrCreateProxyByUniqueKey ?k w = Some proxy"
    by (simp add: findOrCreateProxyByUniqueKey_def)
  from lock_step1_cached [OF this, of ctx this "colorTypeOfLockTextureProxy ctx this" mipMapped]
  obtain view this' w' where
    step: "lock_step1 ctx this (Some ?k) (colorTypeOfLockTextureProxy ctx this) mipMapped w =
             Returned (Some view) this' w'"
    and swizzle: "view_swizzle view =
             caps_getReadSwizzle ctx (proxy_backendFormat proxy)
               (colorTypeOfLockTextureProxy ctx this)"
    by blast
  from lock_step1_Returned [OF step]
  have "histogram w' = histogram w @ [kPreExisting_LockTexturePath]" by simp
  moreover from step
  have "lockTextureProxyView ctx this kDraw mipMapped w = Inr (Some view, this', w')"
    by (simp add: lockTextureProxyView_def)
  ultimately show ?thesis using swizzle by blast
qed

lemma lockTextureProxyView_YUV_view:
  assumes run: "lockTextureProxyView ctx this texGenPolicy mipMapped w =
                  Inr (returned, this', w')"
      and yuv: "histogram w' = histogram w @ [kYUV_LockTexturePath]"
  shows "returned =
           GrRenderTargetContext_Make ctx (SkColorTypeToGrColorType ctx (SkImage_colorType this))
             (SkImage_dimensions this)
             (if texGenPolicy = kNew_Uncached_Unbudgeted then SkBudgeted_kNo else SkBudgeted_kYes)"
proof -
  let ?key = "if texGenPolicy = kDraw
              then Some (GrMakeKeyFromImageID (fUniqueID this) (SkImage_dimensions this))
              else None"
  let ?ct = "colorTypeOfLockTextureProxy ctx this"
  from run have run':
    "(case lock_step1 ctx this ?key ?ct mipMapped w of
        Returned view this1 w1 \<Rightarrow> Inr (view, this1, w1)
      | NextStep this1 w1 \<Rightarrow>
          (case lock_step2 ctx this1 ?key texGenPolicy mipMapped w1 of
             Returned view this2 w2 \<Rightarrow> Inr (view, this2, w2)
           | NextStep this2 w2 \<Rightarrow>
               (case lock_step3 ctx this2 ?key texGenPolicy mipMapped w2 of
                  Inl f \<Rightarrow> Inl f
                | Inr (Returned view this3 w3) \<Rightarrow> Inr (view, this3, w3)
                | Inr (NextStep this3 w3) \<Rightarrow>
                    (case lock_step4 ctx this3 ?key texGenPolicy mipMapped w3 of
                       Returned view this4 w4 \<Rightarrow> Inr (view, this4, w4)
                     | NextStep this4 w4 \<Rightarrow>
                         Inr (None, this4,
                              SK_HISTOGRAM_ENUMERATION kFailure_LockTexturePath w4)))))
     = Inr (returned, this', w')"
    unfolding lockTextureProxyView_def Let_def .
  show ?thesis
  proof (cases "lock_step1 ctx this ?key ?ct mipMapped w")
    case r1: (Returned v1 this1 w1)
    with run' have "w' = w1" by simp
    with lock_step1_Returned [OF r1] yuv show ?thesis by simp
  next
    case n1: (NextStep this1 w1)
    note s1 = lock_step1_NextStep [OF n1]
    show ?thesis
    proof (cases "lock_step2 ctx this1 ?key texGenPolicy mipMapped w1")
      case r2: (Returned v2 this2 w2)
      with run' n1 have "w' = w2" by simp
      with lock_step2_Returned [OF r2] s1 yuv show ?thesis by simp
    next
      case n2: (NextStep this2 w2)
      note s2 = lock_step2_NextStep [OF n2]
      show ?thesis
      proof (cases "lock_step3 ctx this2 ?key texGenPolicy mipMapped w2")
        case (Inl f)
        with run' n1 n2 show ?thesis by simp
      next
        case o3: (Inr outcome)
        show ?thesis
        proof (cases outcome)
          case r3: (Returned v3 this3 w3)
          with run' n1 n2 o3 have "returned = v3" by simp
          with lock_step3_Returned_view [OF o3 [unfolded r3]] s1 s2 show ?thesis by simp
        next
          case n3: (NextStep this3 w3)
          note s3 = lock_step3_NextStep [OF o3 [unfolded n3]]
          show ?thesis
          proof (cases "lock_step4 ctx this3 ?key texGenPolicy mipMapped w3")
            case r4: (Returned v4 this4 w4)
            with run' n1 n2 o3 n3 have "w' = w4" by simp
            with lock_step4_Returned [OF r4] s1 s2 s3 yuv show ?thesis by simp
          next
            case n4: (NextStep this4 w4)
            with run' n1 n2 o3 n3
            have "w' = SK_HISTOGRAM_ENUMERATION kFailure_LockTexturePath w4" by simp
            with lock_step4_NextStep [OF n4] s1 s2 s3 yuv show ?thesis
              by (simp add: SK_HISTOGRAM_ENUMERATION_def)
          qed
        qed
      qed
    qed
  qed
qed

text \<open>The call on the sample image in the context \<open>probe_ctx\<close>, evaluated.\<close>

lemma textureProxyViewFromPlanes_probe:
  "textureProxyViewFromPlanes probe_ctx sample_image SkBudgeted_kYes empty_world =
     Inr (Some (sample_view 502 GrMipmapped_kNo),
          SkYUVPlanesCache_Add 5 sample_data sample_yuvInfo empty_world)"
proof -
  have planes: "getPlanes probe_ctx sample_image empty_world =
      Inr (Some sample_planes, SkYUVPlanesCache_Add 5 sample_data sample_yuvInfo empty_world)"
    by (simp add: getPlanes_def probe_ctx_def unsupported_format_ctx_def sample_ctx_def
        sample_image_def empty_world_def
        SkYUVPlanesCache_FindAndRef_def sample_generator_def sample_yuvInfo_def sample_sizeInfo_def
        sample_planes_def sample_data_def planes_output_def Let_def nullptr_def kMaxCount_def
        miss_planes_loop.simps totalSize_loop.simps)
  have views: "yuvViews_loop probe_ctx (out_yuvaSizeInfo sample_planes) (outPlanes sample_planes)
                 0 (\<lambda>_. None) \<noteq> None"
    by (simp add: yuvViews_loop.simps probe_ctx_def unsupported_format_ctx_def sample_ctx_def
        sample_planes_def planes_output_def sample_yuvInfo_def sample_sizeInfo_def
        SkISize_isEmpty_def kMaxCount_def Let_def)
  then obtain yuvViews where
    "yuvViews_loop probe_ctx (out_yuvaSizeInfo sample_planes) (outPlanes sample_planes)
       0 (\<lambda>_. None) = Some yuvViews"
    by blast
  with planes show ?thesis
    by (simp add: textureProxyViewFromPlanes_def Let_def probe_ctx_def unsupported_format_ctx_def
        sample_ctx_def sample_image_def sample_info_def SkImage_colorType_def)
qed

lemma lockTextureProxyView_probe:
  "lockTextureProxyView probe_ctx sample_image kDraw GrMipmapped_kNo empty_world =
     Inr (Some (sample_view 502 GrMipmapped_kNo),
          addUniqueIDListener sample_image
            \<lparr>listener_key = GrMakeKeyFromImageID 5 \<lparr>fWidth = 16, fHeight = 16\<rparr>,
             listener_contextID = 1\<rparr>,
          assignUniqueKeyToProxy (GrMakeKeyFromImageID 5 \<lparr>fWidth = 16, fHeight = 16\<rparr>)
            (view_proxy (sample_view 502 GrMipmapped_kNo))
            (SK_HISTOGRAM_ENUMERATION kYUV_LockTexturePath
               (SkYUVPlanesCache_Add 5 sample_data sample_yuvInfo empty_world)))"
proof -
  have disabled: "\<not> fDisableGpuYUVConversion probe_ctx" "contextID probe_ctx = 1"
    by (simp_all add: probe_ctx_def unsupported_format_ctx_def sample_ctx_def)
  have image: "fUniqueID sample_image = 5"
      "SkImage_dimensions sample_image = \<lparr>fWidth = 16, fHeight = 16\<rparr>"
      "gen_generateTexture (fSharedGenerator sample_image) (fInfo sample_image)
         GrMipmapped_kNo kDraw = None"
    by (simp_all add: sample_image_def sample_info_def sample_generator_def
        SkImage_dimensions_def)
  have empty: "uniquelyKeyedProxies empty_world k = None" for k
    by (simp add: empty_world_def)
  show ?thesis
    by (simp add: lockTextureProxyView_def lock_step1_def lock_step2_def lock_step3_def
        findOrCreateProxyByUniqueKey_def installKey_def Let_def
        textureProxyViewFromPlanes_probe disabled image empty)
qed

section \<open>The claims\<close>

text \<open>
  Claim C1: every call of \<open>lockTextureProxyView\<close> records exactly one
  \<open>LockTexturePath\<close> sample, that of the first step of the cascade that succeeds, and
  \<open>kFailure\<close> with an empty view when none does. The code does so in every call that
  returns (\<open>lockTextureProxyView_one_sample\<close>, \<open>lockTextureProxyView_sample_order\<close>),
  but not every call returns: with nothing cached, a generator without a native texture, and
  a resource cache that cannot allocate, step 3 reaches \<open>getPlanes\<close>, which calls
  \<open>writable_data\<close> on the null result of \<open>NewCachedData\<close>. The call ends in that
  fault, and no sample has been recorded.
\<close>

theorem lockTextureProxyView_null_dereference:
  "lockTextureProxyView out_of_memory_ctx sample_image kDraw GrMipmapped_kNo empty_world =
     Inl NullDereference"
  by (simp add: lockTextureProxyView_def lock_step1_def lock_step2_def lock_step3_def
      textureProxyViewFromPlanes_def getPlanes_def findOrCreateProxyByUniqueKey_def
      out_of_memory_ctx_def sample_ctx_def sample_image_def empty_world_def
      SkYUVPlanesCache_FindAndRef_def sample_generator_def Let_def)




text \<open>
  Claim C3: when an allocation fails (\<open>SkBitmapCache::Alloc\<close> in \<open>getROPixels\<close>,
  \<open>SkResourceCache::NewCachedData\<close> after a YUV cache miss in \<open>getPlanes\<close>) the
  accessor returns failure without writing any cache or the image, and no null allocation
  result is dereferenced. \<open>getROPixels\<close> does so (\<open>getROPixels_alloc_failure\<close>).
  \<open>getPlanes\<close> does not test the result of \<open>NewCachedData\<close>: where the generator
  answers \<open>queryYUVA8\<close> and the resource cache cannot allocate, it dereferences the null
  pointer.
\<close>

theorem getPlanes_null_dereference:
  "getPlanes out_of_memory_ctx sample_image empty_world = Inl NullDereference"
  by (simp add: getPlanes_def out_of_memory_ctx_def sample_ctx_def sample_image_def
      empty_world_def SkYUVPlanesCache_FindAndRef_def sample_generator_def Let_def)

text \<open>
  Claim C4: in \<open>getPlanes\<close> the pointer of every non-empty plane \<open>i > 0\<close> is the pointer
  of plane 0 plus the sum over \<open>j < i\<close> of \<open>row_bytes[j] * height[j]\<close>, an empty plane is
  null, and the hit path and the miss path compute the same layout. As stated this fails
  where an empty plane precedes a non-empty one: each loop adds to the pointer of the plane
  before, which is null for an empty plane, so with planes 0 and 2 of 8 bytes and plane 1
  empty the pointer of plane 2 is null, not plane 0 plus 8.

  What holds for every successful call: plane 0 is the start of the data; an empty plane
  \<open>i > 0\<close> is null; a plane \<open>i > 0\<close> such that no plane from 1 to \<open>i\<close> is empty is
  at plane 0 plus the sum of the spec; and all four pointers are what the loop of the hit
  path and the loop of the miss path each compute from the data's address and the size info
  returned, so the two paths agree.
\<close>

theorem getPlanes_layout:
  assumes "getPlanes env this w = Inr (Some r, w')"
  shows "outPlanes r 0 = cd_data (out_data r) \<and>
         (\<forall>i. 0 < i \<and> i < kMaxCount \<and> fWidthBytes (out_yuvaSizeInfo r) i = 0 \<longrightarrow>
              outPlanes r i = nullptr) \<and>
         (\<forall>i. 0 < i \<and> i < kMaxCount \<and>
              (\<forall>j. 0 < j \<and> j \<le> i \<longrightarrow> fWidthBytes (out_yuvaSizeInfo r) j \<noteq> 0) \<longrightarrow>
              outPlanes r i = spec_plane_pointer (outPlanes r 0) (out_yuvaSizeInfo r) i) \<and>
         (\<forall>i. i < kMaxCount \<longrightarrow>
              outPlanes r i =
                hit_planes_loop 1 (out_yuvaSizeInfo r)
                  ((\<lambda>_. nullptr)(0 := cd_data (out_data r))) i \<and>
              outPlanes r i =
                miss_planes_loop 1 (out_yuvaSizeInfo r)
                  ((\<lambda>_. nullptr)(0 := cd_data (out_data r))) i)"
proof -
  from getPlanes_result [OF assms] obtain yuvInfo planes where
    r: "r = planes_output yuvInfo planes (out_data r)" and
    planes: "planes = miss_planes_loop 1 (fSizeInfo yuvInfo)
               ((\<lambda>_. nullptr)(0 := cd_data (out_data r)))"
    by blast
  have si: "out_yuvaSizeInfo r = fSizeInfo yuvInfo"
    by (subst r) (simp add: planes_output_def)
  have out: "outPlanes r i = planes i" if "i < kMaxCount" for i
    using that by (subst r) (simp add: planes_output_apply)
  have p0: "planes 0 = cd_data (out_data r)"
    by (simp add: planes miss_planes_loop_below)
  have zero: "outPlanes r 0 = cd_data (out_data r)"
    using out [of 0] p0 by (simp add: kMaxCount_def)
  have empty: "outPlanes r i = nullptr"
    if "0 < i" "i < kMaxCount" "fWidthBytes (out_yuvaSizeInfo r) i = 0" for i
    using that by (simp add: out planes si miss_planes_loop_empty_plane)
  have closed: "outPlanes r i = spec_plane_pointer (outPlanes r 0) (out_yuvaSizeInfo r) i"
    if "0 < i" "i < kMaxCount"
       "\<forall>j. 0 < j \<and> j \<le> i \<longrightarrow> fWidthBytes (out_yuvaSizeInfo r) j \<noteq> 0" for i
  proof -
    have "planes i = spec_plane_pointer (cd_data (out_data r)) (fSizeInfo yuvInfo) i"
      unfolding planes using that by (simp add: miss_planes_loop_closed_form si)
    with that(2) show ?thesis by (simp add: out zero si)
  qed
  have same: "outPlanes r i = hit_planes_loop 1 (out_yuvaSizeInfo r)
                  ((\<lambda>_. nullptr)(0 := cd_data (out_data r))) i \<and>
              outPlanes r i = miss_planes_loop 1 (out_yuvaSizeInfo r)
                  ((\<lambda>_. nullptr)(0 := cd_data (out_data r))) i"
    if "i < kMaxCount" for i
    using that by (simp add: out planes si hit_miss_planes_loop)
  from zero empty closed same show ?thesis by blast
qed

theorem getPlanes_layout_witness:
  "getPlanes sample_ctx sample_image empty_world =
     Inr (Some sample_planes, SkYUVPlanesCache_Add 5 sample_data sample_yuvInfo empty_world) \<and>
   outPlanes sample_planes 0 = 4096 \<and>
   outPlanes sample_planes 1 = 4352 \<and>
   spec_plane_pointer 4096 sample_sizeInfo 1 = 4352 \<and>
   outPlanes sample_planes 2 = 4416 \<and>
   spec_plane_pointer 4096 sample_sizeInfo 2 = 4416 \<and>
   fWidthBytes sample_sizeInfo 3 = 0 \<and>
   outPlanes sample_planes 3 = nullptr"
proof -
  have run: "getPlanes sample_ctx sample_image empty_world =
     Inr (Some sample_planes, SkYUVPlanesCache_Add 5 sample_data sample_yuvInfo empty_world)"
    unfolding sample_image_def by (rule getPlanes_sample)
  have si: "out_yuvaSizeInfo sample_planes = sample_sizeInfo"
    by (simp add: sample_planes_def planes_output_def sample_yuvInfo_def)
  have widths: "fWidthBytes sample_sizeInfo 1 = 8 \<and> fWidthBytes sample_sizeInfo 2 = 8 \<and>
                fWidthBytes sample_sizeInfo 3 = 0"
    by (simp add: sample_sizeInfo_def)
  have sums: "spec_plane_pointer 4096 sample_sizeInfo 1 = 4352 \<and>
              spec_plane_pointer 4096 sample_sizeInfo 2 = 4416"
    by (simp add: spec_plane_pointer_def sample_sizeInfo_def lessThan_Suc numeral_2_eq_2)
  note layout = getPlanes_layout [OF run, unfolded si]
  from layout have zero: "outPlanes sample_planes 0 = 4096"
    by (simp add: sample_planes_def planes_output_def sample_data_def)
  from layout have three: "outPlanes sample_planes 3 = nullptr"
    using widths by (simp add: kMaxCount_def)
  have one_ok: "\<forall>j. 0 < j \<and> j \<le> (1::nat) \<longrightarrow> fWidthBytes sample_sizeInfo j \<noteq> 0"
  proof (intro allI impI)
    fix j :: nat
    assume "0 < j \<and> j \<le> 1"
    then have "j = 1" by auto
    with widths show "fWidthBytes sample_sizeInfo j \<noteq> 0" by auto
  qed
  have two_ok: "\<forall>j. 0 < j \<and> j \<le> (2::nat) \<longrightarrow> fWidthBytes sample_sizeInfo j \<noteq> 0"
  proof (intro allI impI)
    fix j :: nat
    assume "0 < j \<and> j \<le> 2"
    then have "j = 1 \<or> j = 2" by auto
    with widths show "fWidthBytes sample_sizeInfo j \<noteq> 0" by auto
  qed
  from layout one_ok have one: "outPlanes sample_planes 1 =
      spec_plane_pointer (outPlanes sample_planes 0) sample_sizeInfo 1"
    by (simp add: kMaxCount_def)
  from layout two_ok have two: "outPlanes sample_planes 2 =
      spec_plane_pointer (outPlanes sample_planes 0) sample_sizeInfo 2"
    by (simp add: kMaxCount_def)
  from run zero one two three sums widths show ?thesis
    by simp
qed

theorem getPlanes_layout_counterexample:
  "(case getPlanes sample_ctx gapped_image empty_world of
      Inl fault \<Rightarrow> False
    | Inr (None, w') \<Rightarrow> False
    | Inr (Some r, w') \<Rightarrow>
        fWidthBytes (out_yuvaSizeInfo r) 2 = 4 \<and>
        outPlanes r 0 = 4096 \<and>
        outPlanes r 2 = 0 \<and>
        spec_plane_pointer (outPlanes r 0) (out_yuvaSizeInfo r) 2 = 4104)"
  by (simp add: getPlanes_def sample_ctx_def gapped_image_def empty_world_def
      SkYUVPlanesCache_FindAndRef_def sample_generator_def sample_yuvInfo_def gapped_sizeInfo_def
      planes_output_def spec_plane_pointer_def Let_def nullptr_def kMaxCount_def
      miss_planes_loop.simps totalSize_loop.simps lessThan_Suc numeral_2_eq_2)

text \<open>
  Claim C5: a call of \<open>getROPixels\<close> with the hint \<open>kDisallow\<close> never populates the
  bitmap cache. The cache after the call is the cache before it, so an entry absent before
  is absent after, whether or not the decode succeeds; and a bitmap returned when the entry
  was absent holds pixels of its own and is immutable.
\<close>

theorem getROPixels_disallow_never_populates:
  assumes "getROPixels env this kDisallow_CachingHint w = (bitmap, this', w')"
  shows "bitmapCache w' = bitmapCache w \<and>
         (bitmapCache w (SkBitmapCacheDesc_Make this) = None \<longrightarrow>
            bitmapCache w' (SkBitmapCacheDesc_Make this) = None \<and>
            (\<forall>bm. bitmap = Some bm \<longrightarrow>
               (\<exists>px. bm_pixels bm = PrivatePixels px) \<and> bm_immutable bm))"
  using assms
  by (auto simp: getROPixels_def SkBitmapCache_Find_def SkBitmapCache_Add_def Let_def split: option.splits if_splits)

theorem getROPixels_disallow_never_populates_witness:
  "getROPixels sample_ctx sample_image kDisallow_CachingHint empty_world =
     (Some \<lparr>bm_info = sample_info, bm_pixels = PrivatePixels [1, 2, 3, 4], bm_immutable = True\<rparr>,
      sample_image, empty_world) \<and>
   getROPixels sample_ctx undecodable_image kDisallow_CachingHint empty_world =
     (None, undecodable_image, empty_world) \<and>
   bitmapCache empty_world (SkBitmapCacheDesc_Make sample_image) = None \<and>
   bitmapCache empty_world (SkBitmapCacheDesc_Make undecodable_image) = None"
proof -
  have ok: "getROPixels sample_ctx sample_image kDisallow_CachingHint empty_world =
     (Some \<lparr>bm_info = sample_info, bm_pixels = PrivatePixels [1, 2, 3, 4], bm_immutable = True\<rparr>,
      sample_image, empty_world)"
    by (simp add: getROPixels_def SkBitmapCache_Find_def SkBitmapCache_Add_def sample_ctx_def sample_image_def empty_world_def
        sample_generator_def Let_def)
  have failed: "getROPixels sample_ctx undecodable_image kDisallow_CachingHint empty_world =
     (None, undecodable_image, empty_world)"
    by (simp add: getROPixels_def SkBitmapCache_Find_def SkBitmapCache_Add_def sample_ctx_def undecodable_image_def empty_world_def
        sample_generator_def Let_def)
  have absent: "bitmapCache empty_world (SkBitmapCacheDesc_Make sample_image) = None"
               "bitmapCache empty_world (SkBitmapCacheDesc_Make undecodable_image) = None"
    by (simp_all add: empty_world_def)
  from getROPixels_disallow_never_populates [OF ok]
       getROPixels_disallow_never_populates [OF failed] ok failed absent
  show ?thesis by simp
qed

text \<open>
  Claim C6: in step 1 of \<open>lockTextureProxyView\<close>, when the texture cache holds a proxy
  without mip levels for the key and a mipped texture is asked for: if the copy into a
  mipped surface succeeds, the view returned is the mipped one, the key is removed from the
  old proxy and installed on the new (the key is assigned to it and a listener for the key
  is added to the image); if the copy fails, the view of the cached proxy is returned, and
  the image and the key bindings are left as they were.
\<close>

theorem lockTextureProxyView_mipmap_upgrade:
  assumes "uniquelyKeyedProxies w (GrMakeKeyFromImageID (fUniqueID this) (SkImage_dimensions this))
             = Some proxy"
      and "proxy_mipmapped proxy = GrMipmapped_kNo"
      and "view = \<lparr>view_proxy = proxy, view_origin = kTopLeft_GrSurfaceOrigin,
                    view_swizzle = caps_getReadSwizzle ctx (proxy_backendFormat proxy)
                      (colorTypeOfLockTextureProxy ctx this)\<rparr>"
  shows "(GrCopyBaseMipMapToView ctx view = Some mippedView \<longrightarrow>
            (\<exists>this' w'.
               lockTextureProxyView ctx this kDraw GrMipmapped_kYes w =
                 Inr (Some mippedView, this', w') \<and>
               proxy_mipmapped (view_proxy mippedView) = GrMipmapped_kYes \<and>
               uniquelyKeyedProxies w'
                 (GrMakeKeyFromImageID (fUniqueID this) (SkImage_dimensions this))
                 = Some (view_proxy mippedView) \<and>
               (\<forall>k. uniquelyKeyedProxies w' k \<noteq> Some proxy) \<and>
               fUniqueIDListeners this' =
                 fUniqueIDListeners this @
                   [\<lparr>listener_key =
                       GrMakeKeyFromImageID (fUniqueID this) (SkImage_dimensions this),
                     listener_contextID = contextID ctx\<rparr>])) \<and>
         (GrCopyBaseMipMapToView ctx view = None \<longrightarrow>
            lockTextureProxyView ctx this kDraw GrMipmapped_kYes w =
              Inr (Some view, this, SK_HISTOGRAM_ENUMERATION kPreExisting_LockTexturePath w) \<and>
            uniquelyKeyedProxies (SK_HISTOGRAM_ENUMERATION kPreExisting_LockTexturePath w) =
              uniquelyKeyedProxies w)"
  using assms
  by (cases this)
     (auto simp: lockTextureProxyView_def lock_step1_def Let_def findOrCreateProxyByUniqueKey_def
       installKey_def removeUniqueKeyFromProxy_def assignUniqueKeyToProxy_def
       addUniqueIDListener_def SkImage_dimensions_def
       SK_HISTOGRAM_ENUMERATION_def GrCopyBaseMipMapToView_def
       split: option.splits dest: mipped_proxy_differs)

theorem lockTextureProxyView_mipmap_upgrade_witness:
  "uniquelyKeyedProxies cached_world
     (GrMakeKeyFromImageID (fUniqueID sample_image) (SkImage_dimensions sample_image))
     = Some cached_proxy \<and>
   proxy_mipmapped cached_proxy = GrMipmapped_kNo \<and>
   GrCopyBaseMipMapToView sample_ctx
     \<lparr>view_proxy = cached_proxy, view_origin = kTopLeft_GrSurfaceOrigin, view_swizzle = 2\<rparr>
     = Some (sample_view 200 GrMipmapped_kYes\<lparr>view_swizzle := 2\<rparr>) \<and>
   (\<exists>this' w'.
      lockTextureProxyView sample_ctx sample_image kDraw GrMipmapped_kYes cached_world =
        Inr (Some (sample_view 200 GrMipmapped_kYes\<lparr>view_swizzle := 2\<rparr>), this', w') \<and>
      uniquelyKeyedProxies w'
        (GrMakeKeyFromImageID (fUniqueID sample_image) (SkImage_dimensions sample_image))
        = Some (view_proxy (sample_view 200 GrMipmapped_kYes)) \<and>
      uniquelyKeyedProxies w'
        (GrMakeKeyFromImageID (fUniqueID sample_image) (SkImage_dimensions sample_image))
        \<noteq> Some cached_proxy) \<and>
   GrCopyBaseMipMapToView failed_copy_ctx
     \<lparr>view_proxy = cached_proxy, view_origin = kTopLeft_GrSurfaceOrigin, view_swizzle = 2\<rparr>
     = None \<and>
   lockTextureProxyView failed_copy_ctx sample_image kDraw GrMipmapped_kYes cached_world =
     Inr (Some \<lparr>view_proxy = cached_proxy, view_origin = kTopLeft_GrSurfaceOrigin,
                 view_swizzle = 2\<rparr>, sample_image,
          SK_HISTOGRAM_ENUMERATION kPreExisting_LockTexturePath cached_world)"
proof -
  let ?view = "\<lparr>view_proxy = cached_proxy, view_origin = kTopLeft_GrSurfaceOrigin,
                 view_swizzle = 2\<rparr>"
  have cached: "uniquelyKeyedProxies cached_world
     (GrMakeKeyFromImageID (fUniqueID sample_image) (SkImage_dimensions sample_image))
     = Some cached_proxy"
    by (simp add: cached_world_def empty_world_def sample_image_def sample_info_def
        SkImage_dimensions_def)
  have unmipped: "proxy_mipmapped cached_proxy = GrMipmapped_kNo"
    by (simp add: cached_proxy_def)
  have view: "?view = \<lparr>view_proxy = cached_proxy, view_origin = kTopLeft_GrSurfaceOrigin,
       view_swizzle = caps_getReadSwizzle sample_ctx (proxy_backendFormat cached_proxy)
         (colorTypeOfLockTextureProxy sample_ctx sample_image)\<rparr>"
    by (simp add: sample_ctx_def colorTypeOfLockTextureProxy_def Let_def
        GrBackendFormat_isValid_def)
  have view': "?view = \<lparr>view_proxy = cached_proxy, view_origin = kTopLeft_GrSurfaceOrigin,
       view_swizzle = caps_getReadSwizzle failed_copy_ctx (proxy_backendFormat cached_proxy)
         (colorTypeOfLockTextureProxy failed_copy_ctx sample_image)\<rparr>"
    by (simp add: failed_copy_ctx_def sample_ctx_def colorTypeOfLockTextureProxy_def Let_def
        GrBackendFormat_isValid_def)
  have copied: "GrCopyBaseMipMapToView sample_ctx ?view =
                  Some (sample_view 200 GrMipmapped_kYes\<lparr>view_swizzle := 2\<rparr>)"
    by (simp add: GrCopyBaseMipMapToView_def sample_ctx_def sample_view_def cached_proxy_def)
  have not_copied: "GrCopyBaseMipMapToView failed_copy_ctx ?view = None"
    by (simp add: GrCopyBaseMipMapToView_def failed_copy_ctx_def)
  from lockTextureProxyView_mipmap_upgrade
         [OF cached unmipped view,
          where mippedView = "sample_view 200 GrMipmapped_kYes\<lparr>view_swizzle := 2\<rparr>"]
       copied
  have upgraded: "\<exists>this' w'.
      lockTextureProxyView sample_ctx sample_image kDraw GrMipmapped_kYes cached_world =
        Inr (Some (sample_view 200 GrMipmapped_kYes\<lparr>view_swizzle := 2\<rparr>), this', w') \<and>
      uniquelyKeyedProxies w'
        (GrMakeKeyFromImageID (fUniqueID sample_image) (SkImage_dimensions sample_image))
        = Some (view_proxy (sample_view 200 GrMipmapped_kYes)) \<and>
      uniquelyKeyedProxies w'
        (GrMakeKeyFromImageID (fUniqueID sample_image) (SkImage_dimensions sample_image))
        \<noteq> Some cached_proxy"
    by (auto simp: sample_view_def)
  from lockTextureProxyView_mipmap_upgrade
         [OF cached unmipped view', where mippedView = "?view"]
       not_copied
  have kept:
    "lockTextureProxyView failed_copy_ctx sample_image kDraw GrMipmapped_kYes cached_world =
       Inr (Some ?view, sample_image,
            SK_HISTOGRAM_ENUMERATION kPreExisting_LockTexturePath cached_world)"
    by blast
  from cached unmipped copied upgraded not_copied kept show ?thesis
    by blast
qed

text \<open>
  Claim C7: \<open>onRefEncoded\<close> returns data only when the image's unique id is its
  generator's; an image obtained by a recolouring that allocated a fresh id has no encoded
  data. The id counter is above the generator's id, as for every id handed out before.
\<close>

theorem onRefEncoded_only_for_generator_id:
  "(onRefEncoded this = Some d \<longrightarrow> fUniqueID this = gen_uniqueID (fSharedGenerator this)) \<and>
   (gen_uniqueID (fSharedGenerator this) < nextID \<and>
    onMakeColorTypeAndColorSpace this targetCT targetCS nextID = (Some result, this', nextID') \<and>
    nextID' \<noteq> nextID
      \<longrightarrow> onRefEncoded result = None)"
  by (auto simp: onRefEncoded_def onMakeColorTypeAndColorSpace_def Validator_ctor_def
       new_SkImage_Lazy_def SkNextID_ImageID_def Let_def
       split: if_splits option.splits prod.splits)

theorem onRefEncoded_only_for_generator_id_witness:
  "onRefEncoded sample_image = Some [7, 7] \<and>
   fUniqueID sample_image = gen_uniqueID (fSharedGenerator sample_image) \<and>
   gen_uniqueID (fSharedGenerator sample_image) < 10 \<and>
   onMakeColorTypeAndColorSpace sample_image 6 None 10 =
     (Some sample_child, set_fOnMakeColorTypeAndSpaceResult sample_image sample_child, 11) \<and>
   onRefEncoded sample_child = None"
proof -
  have enc: "onRefEncoded sample_image = Some [7, 7]"
    by (simp add: onRefEncoded_def sample_image_def sample_generator_def)
  have lt: "gen_uniqueID (fSharedGenerator sample_image) < 10"
    by (simp add: sample_image_def sample_generator_def)
  have mk: "onMakeColorTypeAndColorSpace sample_image 6 None 10 =
     (Some sample_child, set_fOnMakeColorTypeAndSpaceResult sample_image sample_child, 11)"
    by (simp add: onMakeColorTypeAndColorSpace_def memo_matches_def Validator_ctor_def
        new_SkImage_Lazy_def SkNextID_ImageID_def sample_image_def sample_child_def
        sample_generator_def sample_info_def SkImageInfo_isEmpty_def SkISize_isEmpty_def
        non_null_def makeColorType_def Let_def)
  from onRefEncoded_only_for_generator_id [of sample_image "[7, 7]" 10 6 None sample_child
         "set_fOnMakeColorTypeAndSpaceResult sample_image sample_child" 11] enc lt mk
  show ?thesis by simp
qed




text \<open>
  Claim C9: the colour type \<open>ct\<close> of a \<open>lockTextureProxyView\<close> call is
  \<open>SkColorTypeToGrColorType\<close> of the image's colour type, with \<open>kRGBA_8888\<close>
  substituted when the caps have no valid default backend format for it. Every call gives
  the result it would give if every read swizzle were asked for \<open>ct\<close> and every render
  target made with the converted colour type without the substitution: the call passes no
  other GPU colour type. A call under the policy \<open>kDraw\<close> that finds a proxy under its key
  returns a view with the read swizzle of \<open>ct\<close>, mip levels added or not; a call answered
  by the YUV step returns the render target made with the converted colour type, which is
  not \<open>ct\<close> when the substitution applies.
\<close>

theorem lockTextureProxyView_color_types:
  "colorTypeOfLockTextureProxy ctx this =
     (if GrBackendFormat_isValid
           (caps_getDefaultBackendFormat ctx
              (SkColorTypeToGrColorType ctx (SkImage_colorType this)) GrRenderable_kNo)
      then SkColorTypeToGrColorType ctx (SkImage_colorType this)
      else kRGBA_8888) \<and>
   lockTextureProxyView
     (with_color_types ctx (colorTypeOfLockTextureProxy ctx this)
        (SkColorTypeToGrColorType ctx (SkImage_colorType this)))
     this texGenPolicy mipMapped w =
     lockTextureProxyView ctx this texGenPolicy mipMapped w \<and>
   (texGenPolicy = kDraw \<and>
    uniquelyKeyedProxies w (GrMakeKeyFromImageID (fUniqueID this) (SkImage_dimensions this))
      = Some proxy \<longrightarrow>
    (\<exists>view this1 w1.
       lockTextureProxyView ctx this texGenPolicy mipMapped w = Inr (Some view, this1, w1) \<and>
       histogram w1 = histogram w @ [kPreExisting_LockTexturePath] \<and>
       view_swizzle view =
         caps_getReadSwizzle ctx (proxy_backendFormat proxy)
           (colorTypeOfLockTextureProxy ctx this))) \<and>
   (lockTextureProxyView ctx this texGenPolicy mipMapped w = Inr (returned, this', w') \<and>
    histogram w' = histogram w @ [kYUV_LockTexturePath] \<longrightarrow>
    returned =
      GrRenderTargetContext_Make ctx (SkColorTypeToGrColorType ctx (SkImage_colorType this))
        (SkImage_dimensions this)
        (if texGenPolicy = kNew_Uncached_Unbudgeted then SkBudgeted_kNo else SkBudgeted_kYes))"
proof -
  have ct: "colorTypeOfLockTextureProxy ctx this =
     (if GrBackendFormat_isValid
           (caps_getDefaultBackendFormat ctx
              (SkColorTypeToGrColorType ctx (SkImage_colorType this)) GrRenderable_kNo)
      then SkColorTypeToGrColorType ctx (SkImage_colorType this)
      else kRGBA_8888)"
    by (simp add: colorTypeOfLockTextureProxy_def Let_def)
  from ct lockTextureProxyView_with_color_types [of ctx this texGenPolicy mipMapped w]
       lockTextureProxyView_cached [of w this proxy ctx mipMapped]
       lockTextureProxyView_YUV_view [of ctx this texGenPolicy mipMapped w returned this' w']
  show ?thesis by blast
qed

theorem lockTextureProxyView_color_types_witness:
  "colorTypeOfLockTextureProxy sample_ctx sample_image = GrColorType_other 4 \<and>
   colorTypeOfLockTextureProxy unsupported_format_ctx sample_image = kRGBA_8888 \<and>
   uniquelyKeyedProxies cached_world
     (GrMakeKeyFromImageID (fUniqueID sample_image) (SkImage_dimensions sample_image))
     = Some cached_proxy \<and>
   (\<exists>view this1 w1.
      lockTextureProxyView unsupported_format_ctx sample_image kDraw GrMipmapped_kYes
        cached_world = Inr (Some view, this1, w1) \<and>
      histogram w1 = [kPreExisting_LockTexturePath] \<and>
      view_swizzle view = 1) \<and>
   lockTextureProxyView
     (with_color_types probe_ctx kRGBA_8888 (GrColorType_other 4))
     sample_image kDraw GrMipmapped_kNo empty_world =
     lockTextureProxyView probe_ctx sample_image kDraw GrMipmapped_kNo empty_world \<and>
   lockTextureProxyView probe_ctx sample_image kDraw GrMipmapped_kNo empty_world =
     Inr (Some (sample_view 502 GrMipmapped_kNo),
          addUniqueIDListener sample_image
            \<lparr>listener_key = GrMakeKeyFromImageID 5 \<lparr>fWidth = 16, fHeight = 16\<rparr>,
             listener_contextID = 1\<rparr>,
          assignUniqueKeyToProxy (GrMakeKeyFromImageID 5 \<lparr>fWidth = 16, fHeight = 16\<rparr>)
            (view_proxy (sample_view 502 GrMipmapped_kNo))
            (SK_HISTOGRAM_ENUMERATION kYUV_LockTexturePath
               (SkYUVPlanesCache_Add 5 sample_data sample_yuvInfo empty_world))) \<and>
   GrRenderTargetContext_Make probe_ctx (GrColorType_other 4)
     (SkImage_dimensions sample_image) SkBudgeted_kYes =
     Some (sample_view 502 GrMipmapped_kNo)"
proof -
  let ?this' = "addUniqueIDListener sample_image
            \<lparr>listener_key = GrMakeKeyFromImageID 5 \<lparr>fWidth = 16, fHeight = 16\<rparr>,
             listener_contextID = 1\<rparr>"
  let ?w' = "assignUniqueKeyToProxy (GrMakeKeyFromImageID 5 \<lparr>fWidth = 16, fHeight = 16\<rparr>)
            (view_proxy (sample_view 502 GrMipmapped_kNo))
            (SK_HISTOGRAM_ENUMERATION kYUV_LockTexturePath
               (SkYUVPlanesCache_Add 5 sample_data sample_yuvInfo empty_world))"
  note supported = lockTextureProxyView_color_types
      [of sample_ctx sample_image kDraw GrMipmapped_kNo cached_world cached_proxy
          None sample_image cached_world]
  note unsupported = lockTextureProxyView_color_types
      [of unsupported_format_ctx sample_image kDraw GrMipmapped_kYes cached_world cached_proxy
          None sample_image cached_world]
  note probe = lockTextureProxyView_color_types
      [of probe_ctx sample_image kDraw GrMipmapped_kNo empty_world cached_proxy
          "Some (sample_view 502 GrMipmapped_kNo)" ?this' ?w']
  have image: "SkImage_colorType sample_image = 4"
    by (simp add: sample_image_def sample_info_def SkImage_colorType_def)
  have ct_supported: "colorTypeOfLockTextureProxy sample_ctx sample_image = GrColorType_other 4"
    using supported [THEN conjunct1] image
    by (simp add: sample_ctx_def GrBackendFormat_isValid_def)
  have ct_unsupported:
    "colorTypeOfLockTextureProxy unsupported_format_ctx sample_image = kRGBA_8888"
    using unsupported [THEN conjunct1]
    by (simp add: unsupported_format_ctx_def GrBackendFormat_isValid_def)
  have ct_probe: "colorTypeOfLockTextureProxy probe_ctx sample_image = kRGBA_8888"
    using probe [THEN conjunct1]
    by (simp add: probe_ctx_def unsupported_format_ctx_def GrBackendFormat_isValid_def)
  have conv_probe:
    "SkColorTypeToGrColorType probe_ctx (SkImage_colorType sample_image) = GrColorType_other 4"
    using image by (simp add: probe_ctx_def unsupported_format_ctx_def sample_ctx_def)
  have cached: "uniquelyKeyedProxies cached_world
     (GrMakeKeyFromImageID (fUniqueID sample_image) (SkImage_dimensions sample_image))
     = Some cached_proxy"
    by (simp add: cached_world_def empty_world_def sample_image_def sample_info_def
        SkImage_dimensions_def)
  have swizzle: "caps_getReadSwizzle unsupported_format_ctx
                   (proxy_backendFormat cached_proxy) kRGBA_8888 = 1"
    by (simp add: unsupported_format_ctx_def sample_ctx_def)
  have no_samples: "histogram cached_world = []" "histogram empty_world = []"
    by (simp_all add: cached_world_def empty_world_def)
  from unsupported [THEN conjunct2, THEN conjunct2, THEN conjunct1] cached
  have "\<exists>view this1 w1.
      lockTextureProxyView unsupported_format_ctx sample_image kDraw GrMipmapped_kYes
        cached_world = Inr (Some view, this1, w1) \<and>
      histogram w1 = histogram cached_world @ [kPreExisting_LockTexturePath] \<and>
      view_swizzle view =
        caps_getReadSwizzle unsupported_format_ctx (proxy_backendFormat cached_proxy)
          (colorTypeOfLockTextureProxy unsupported_format_ctx sample_image)"
    by blast
  then have hit: "\<exists>view this1 w1.
      lockTextureProxyView unsupported_format_ctx sample_image kDraw GrMipmapped_kYes
        cached_world = Inr (Some view, this1, w1) \<and>
      histogram w1 = [kPreExisting_LockTexturePath] \<and>
      view_swizzle view = 1"
    by (simp add: ct_unsupported swizzle no_samples)
  have same: "lockTextureProxyView
     (with_color_types probe_ctx kRGBA_8888 (GrColorType_other 4))
     sample_image kDraw GrMipmapped_kNo empty_world =
     lockTextureProxyView probe_ctx sample_image kDraw GrMipmapped_kNo empty_world"
    using probe [THEN conjunct2, THEN conjunct1]
    by (simp add: ct_probe conv_probe)
  have samples: "histogram ?w' = histogram empty_world @ [kYUV_LockTexturePath]"
    by (simp add: SK_HISTOGRAM_ENUMERATION_def assignUniqueKeyToProxy_def
        SkYUVPlanesCache_Add_def empty_world_def)
  from probe [THEN conjunct2, THEN conjunct2, THEN conjunct2]
       lockTextureProxyView_probe samples
  have "Some (sample_view 502 GrMipmapped_kNo) =
      GrRenderTargetContext_Make probe_ctx
        (SkColorTypeToGrColorType probe_ctx (SkImage_colorType sample_image))
        (SkImage_dimensions sample_image)
        (if kDraw = kNew_Uncached_Unbudgeted then SkBudgeted_kNo else SkBudgeted_kYes)"
    by blast
  then have target: "GrRenderTargetContext_Make probe_ctx (GrColorType_other 4)
     (SkImage_dimensions sample_image) SkBudgeted_kYes =
     Some (sample_view 502 GrMipmapped_kNo)"
    by (simp add: conv_probe)
  from ct_supported ct_unsupported cached hit same lockTextureProxyView_probe target
  show ?thesis by blast
qed

text \<open>
  In the context \<open>probe_ctx\<close> the caps have no default backend format for the sample
  image's colour type, so \<open>ct\<close> is \<open>kRGBA_8888\<close>, for which the render target would
  be proxy 501; the call is answered by the YUV step with proxy 502, the render target of the
  colour type that was not substituted.
\<close>

theorem lockTextureProxyView_color_types_counterexample:
  "\<not> GrBackendFormat_isValid
        (caps_getDefaultBackendFormat probe_ctx
           (SkColorTypeToGrColorType probe_ctx (SkImage_colorType sample_image))
           GrRenderable_kNo) \<and>
   colorTypeOfLockTextureProxy probe_ctx sample_image = kRGBA_8888 \<and>
   GrRenderTargetContext_Make probe_ctx kRGBA_8888 (SkImage_dimensions sample_image)
     SkBudgeted_kYes = Some (sample_view 501 GrMipmapped_kNo) \<and>
   (case lockTextureProxyView probe_ctx sample_image kDraw GrMipmapped_kNo empty_world of
      Inl fault \<Rightarrow> False
    | Inr (None, this', w') \<Rightarrow> False
    | Inr (Some view, this', w') \<Rightarrow>
        view = sample_view 502 GrMipmapped_kNo \<and>
        proxy_id (view_proxy view) \<noteq> 501 \<and>
        histogram w' = [kYUV_LockTexturePath])"
proof -
  have invalid: "\<not> GrBackendFormat_isValid
        (caps_getDefaultBackendFormat probe_ctx
           (SkColorTypeToGrColorType probe_ctx (SkImage_colorType sample_image))
           GrRenderable_kNo)"
    by (simp add: probe_ctx_def unsupported_format_ctx_def sample_ctx_def
        GrBackendFormat_isValid_def)
  then have ct: "colorTypeOfLockTextureProxy probe_ctx sample_image = kRGBA_8888"
    by (simp add: colorTypeOfLockTextureProxy_def Let_def)
  have target: "GrRenderTargetContext_Make probe_ctx kRGBA_8888
      (SkImage_dimensions sample_image) SkBudgeted_kYes = Some (sample_view 501 GrMipmapped_kNo)"
    by (simp add: probe_ctx_def unsupported_format_ctx_def sample_ctx_def)
  have view: "proxy_id (view_proxy (sample_view 502 GrMipmapped_kNo)) \<noteq> 501"
    by (simp add: sample_view_def)
  have samples: "histogram
      (assignUniqueKeyToProxy (GrMakeKeyFromImageID 5 \<lparr>fWidth = 16, fHeight = 16\<rparr>)
         (view_proxy (sample_view 502 GrMipmapped_kNo))
         (SK_HISTOGRAM_ENUMERATION kYUV_LockTexturePath
            (SkYUVPlanesCache_Add 5 sample_data sample_yuvInfo empty_world))) =
      [kYUV_LockTexturePath]"
    by (simp add: SK_HISTOGRAM_ENUMERATION_def assignUniqueKeyToProxy_def
        SkYUVPlanesCache_Add_def empty_world_def)
  from invalid ct target view samples show ?thesis
    by (simp add: lockTextureProxyView_probe)
qed

text \<open>
  Claim C10: \<open>getPlanes\<close> looks the YUV planes cache up under the generator's id and,
  after a miss, adds the planes under the image's id. So a call by an image whose id is not
  its generator's never writes the entry that lookups through the generator read; after
  its successful miss the planes are under the image's id, and the lookup of every image
  over that generator still finds nothing; while after a successful miss by an image that
  carries the generator's id, every image over that generator hits: it gets the same planes
  and data without a query, an allocation or a change of the cache.
\<close>

theorem getPlanes_lookup_and_add_keys:
  "(fUniqueID this \<noteq> gen_uniqueID (fSharedGenerator this) \<and>
    getPlanes env this w = Inr (returned, w')
      \<longrightarrow> yuvPlanesCache w' (gen_uniqueID (fSharedGenerator this)) =
            yuvPlanesCache w (gen_uniqueID (fSharedGenerator this))) \<and>
   (fUniqueID this \<noteq> gen_uniqueID (fSharedGenerator this) \<and>
    yuvPlanesCache w (gen_uniqueID (fSharedGenerator this)) = None \<and>
    getPlanes env this w = Inr (Some r, w')
      \<longrightarrow> (\<exists>yuvInfo. yuvPlanesCache w' (fUniqueID this) = Some (out_data r, yuvInfo)) \<and>
          (\<forall>other. fSharedGenerator other = fSharedGenerator this \<longrightarrow>
             SkYUVPlanesCache_FindAndRef (gen_uniqueID (fSharedGenerator other)) w' = None)) \<and>
   (fUniqueID original = gen_uniqueID (fSharedGenerator original) \<and>
    yuvPlanesCache w0 (gen_uniqueID (fSharedGenerator original)) = None \<and>
    getPlanes env0 original w0 = Inr (Some r0, w0') \<and>
    fSharedGenerator recolored = fSharedGenerator original
      \<longrightarrow> getPlanes env1 recolored w0' = Inr (Some r0, w0'))"
proof (intro conjI impI)
  assume "fUniqueID this \<noteq> gen_uniqueID (fSharedGenerator this) \<and>
    getPlanes env this w = Inr (returned, w')"
  then show "yuvPlanesCache w' (gen_uniqueID (fSharedGenerator this)) =
               yuvPlanesCache w (gen_uniqueID (fSharedGenerator this))"
    by (auto simp: getPlanes_def Let_def SkYUVPlanesCache_FindAndRef_def SkYUVPlanesCache_Add_def
        split: option.splits prod.splits)
next
  assume a: "fUniqueID this \<noteq> gen_uniqueID (fSharedGenerator this) \<and>
    yuvPlanesCache w (gen_uniqueID (fSharedGenerator this)) = None \<and>
    getPlanes env this w = Inr (Some r, w')"
  then show "\<exists>yuvInfo. yuvPlanesCache w' (fUniqueID this) = Some (out_data r, yuvInfo)"
    by (auto simp: getPlanes_def Let_def SkYUVPlanesCache_FindAndRef_def SkYUVPlanesCache_Add_def
        planes_output_def split: option.splits)
  from a show "\<forall>other. fSharedGenerator other = fSharedGenerator this \<longrightarrow>
             SkYUVPlanesCache_FindAndRef (gen_uniqueID (fSharedGenerator other)) w' = None"
    by (auto simp: getPlanes_def Let_def SkYUVPlanesCache_FindAndRef_def SkYUVPlanesCache_Add_def
        split: option.splits)
next
  assume "fUniqueID original = gen_uniqueID (fSharedGenerator original) \<and>
    yuvPlanesCache w0 (gen_uniqueID (fSharedGenerator original)) = None \<and>
    getPlanes env0 original w0 = Inr (Some r0, w0') \<and>
    fSharedGenerator recolored = fSharedGenerator original"
  then show "getPlanes env1 recolored w0' = Inr (Some r0, w0')"
    by (auto simp: getPlanes_def Let_def SkYUVPlanesCache_FindAndRef_def SkYUVPlanesCache_Add_def
        hit_miss_planes_loop split: option.splits)
qed

theorem getPlanes_lookup_and_add_keys_witness:
  "fUniqueID recolored_image \<noteq> gen_uniqueID (fSharedGenerator recolored_image) \<and>
   getPlanes sample_ctx recolored_image empty_world =
     Inr (Some sample_planes, SkYUVPlanesCache_Add 12 sample_data sample_yuvInfo empty_world) \<and>
   yuvPlanesCache (SkYUVPlanesCache_Add 12 sample_data sample_yuvInfo empty_world) 12 =
     Some (sample_data, sample_yuvInfo) \<and>
   yuvPlanesCache (SkYUVPlanesCache_Add 12 sample_data sample_yuvInfo empty_world)
     (gen_uniqueID (fSharedGenerator recolored_image)) =
     yuvPlanesCache empty_world (gen_uniqueID (fSharedGenerator recolored_image)) \<and>
   SkYUVPlanesCache_FindAndRef (gen_uniqueID (fSharedGenerator sample_image))
     (SkYUVPlanesCache_Add 12 sample_data sample_yuvInfo empty_world) = None \<and>
   fUniqueID sample_image = gen_uniqueID (fSharedGenerator sample_image) \<and>
   getPlanes sample_ctx sample_image empty_world =
     Inr (Some sample_planes, SkYUVPlanesCache_Add 5 sample_data sample_yuvInfo empty_world) \<and>
   getPlanes out_of_memory_ctx recolored_image
     (SkYUVPlanesCache_Add 5 sample_data sample_yuvInfo empty_world) =
     Inr (Some sample_planes, SkYUVPlanesCache_Add 5 sample_data sample_yuvInfo empty_world)"
proof -
  have ids: "fUniqueID recolored_image \<noteq> gen_uniqueID (fSharedGenerator recolored_image)"
            "fUniqueID sample_image = gen_uniqueID (fSharedGenerator sample_image)"
            "fSharedGenerator recolored_image = fSharedGenerator sample_image"
            "fUniqueID recolored_image = 12"
    by (simp_all add: recolored_image_def sample_image_def sample_generator_def)
  have miss: "yuvPlanesCache empty_world (gen_uniqueID (fSharedGenerator recolored_image)) = None"
             "yuvPlanesCache empty_world (gen_uniqueID (fSharedGenerator sample_image)) = None"
    by (simp_all add: empty_world_def)
  have recolored: "getPlanes sample_ctx recolored_image empty_world =
     Inr (Some sample_planes, SkYUVPlanesCache_Add 12 sample_data sample_yuvInfo empty_world)"
    unfolding recolored_image_def by (rule getPlanes_sample)
  have original: "getPlanes sample_ctx sample_image empty_world =
     Inr (Some sample_planes, SkYUVPlanesCache_Add 5 sample_data sample_yuvInfo empty_world)"
    unfolding sample_image_def by (rule getPlanes_sample)
  have stored: "yuvPlanesCache (SkYUVPlanesCache_Add 12 sample_data sample_yuvInfo empty_world) 12
                  = Some (sample_data, sample_yuvInfo)"
    by (simp add: SkYUVPlanesCache_Add_def)
  note keys = getPlanes_lookup_and_add_keys
         [of recolored_image sample_ctx empty_world "Some sample_planes"
             "SkYUVPlanesCache_Add 12 sample_data sample_yuvInfo empty_world"
             sample_planes
             sample_image empty_world sample_ctx sample_planes
             "SkYUVPlanesCache_Add 5 sample_data sample_yuvInfo empty_world"
             recolored_image out_of_memory_ctx]
  have pre: "fUniqueID recolored_image \<noteq> gen_uniqueID (fSharedGenerator recolored_image) \<and>
      yuvPlanesCache empty_world (gen_uniqueID (fSharedGenerator recolored_image)) = None \<and>
      getPlanes sample_ctx recolored_image empty_world =
        Inr (Some sample_planes, SkYUVPlanesCache_Add 12 sample_data sample_yuvInfo empty_world)"
    using ids miss recolored by simp
  from keys pre
  have frame: "yuvPlanesCache (SkYUVPlanesCache_Add 12 sample_data sample_yuvInfo empty_world)
       (gen_uniqueID (fSharedGenerator recolored_image)) =
     yuvPlanesCache empty_world (gen_uniqueID (fSharedGenerator recolored_image))"
    by blast
  from keys pre
  have "\<forall>other. fSharedGenerator other = fSharedGenerator recolored_image \<longrightarrow>
          SkYUVPlanesCache_FindAndRef (gen_uniqueID (fSharedGenerator other))
            (SkYUVPlanesCache_Add 12 sample_data sample_yuvInfo empty_world) = None"
    by blast
  with ids(3)
  have unseen: "SkYUVPlanesCache_FindAndRef (gen_uniqueID (fSharedGenerator sample_image))
     (SkYUVPlanesCache_Add 12 sample_data sample_yuvInfo empty_world) = None"
    by metis
  have pre0: "fUniqueID sample_image = gen_uniqueID (fSharedGenerator sample_image) \<and>
      yuvPlanesCache empty_world (gen_uniqueID (fSharedGenerator sample_image)) = None \<and>
      getPlanes sample_ctx sample_image empty_world =
        Inr (Some sample_planes, SkYUVPlanesCache_Add 5 sample_data sample_yuvInfo empty_world) \<and>
      fSharedGenerator recolored_image = fSharedGenerator sample_image"
    using ids miss original by simp
  from keys pre0
  have hit: "getPlanes out_of_memory_ctx recolored_image
     (SkYUVPlanesCache_Add 5 sample_data sample_yuvInfo empty_world) =
     Inr (Some sample_planes, SkYUVPlanesCache_Add 5 sample_data sample_yuvInfo empty_world)"
    by blast
  from ids recolored stored frame unseen original hit show ?thesis
    by simp
qed

end
